theory Spec2Isabelle
  imports Complex_Main
begin

section \<open>The tree payload (src/components/LifeTree.tsx)\<close>

text \<open>
  \<^verbatim>\<open>type TimeFrame = "Now" | "1yr" | "3yr" | "5yr" | "10yr" | "20yr" | "30yr"\<close>,
  \<^verbatim>\<open>type Sentiment = "positive" | "neutral" | "negative"\<close> and the interface
  \<^verbatim>\<open>LifeNodeData { id; title; description; timeframe; sentiment; probability?; children? }\<close>.
  The field \<open>id\<close> is the selector \<open>node_id\<close> (\<open>id\<close> is HOL's identity function). An
  optional field is an \<open>option\<close>: \<open>None\<close> is the missing (or null) property.
\<close>

datatype TimeFrame = Now | Yr1 | Yr3 | Yr5 | Yr10 | Yr20 | Yr30

datatype Sentiment = Positive | Neutral | Negative

datatype LifeNodeData =
  LifeNodeData (node_id: string) (title: string) (description: string)
    (timeframe: TimeFrame) (sentiment: Sentiment) (probability: "int option")
    (children: "LifeNodeData list option")

text \<open>The object spread \<^verbatim>\<open>{ ...tree, children: cs }\<close>: a new object, every field of
  \<open>tree\<close> but \<open>children\<close> copied.\<close>

definition with_children :: "LifeNodeData \<Rightarrow> LifeNodeData list \<Rightarrow> LifeNodeData" where
  "with_children tree cs =
     LifeNodeData (node_id tree) (title tree) (description tree) (timeframe tree)
       (sentiment tree) (probability tree) (Some cs)"

text \<open>
  \<^verbatim>\<open>findNodeById\<close> (LifeTree.tsx, 475-484). \<open>findNodeById_loop\<close> is its
  \<^verbatim>\<open>for (const child of tree.children)\<close> loop, which returns at the first child whose
  search finds a node. \<^verbatim>\<open>if (tree.children)\<close> holds for every array, the empty one
  included; \<^verbatim>\<open>null\<close> is \<open>None\<close>.
\<close>

function findNodeById :: "LifeNodeData \<Rightarrow> string \<Rightarrow> LifeNodeData option"
  and findNodeById_loop :: "LifeNodeData list \<Rightarrow> string \<Rightarrow> LifeNodeData option" where
  "findNodeById tree i =
     (if node_id tree = i then Some tree
      else case children tree of
        Some cs \<Rightarrow> findNodeById_loop cs i
      | None \<Rightarrow> None)"
| "findNodeById_loop [] i = None"
| "findNodeById_loop (child # rest) i =
     (case findNodeById child i of
        Some found \<Rightarrow> Some found
      | None \<Rightarrow> findNodeById_loop rest i)"
  by pat_completeness auto
termination
proof (relation "measure (\<lambda>a. case a of Inl (t, _) \<Rightarrow> 2 * size t
                                        | Inr (cs, _) \<Rightarrow> 2 * size_list size cs + 1)")
  fix tree :: LifeNodeData and i :: string and cs
  assume "children tree = Some cs"
  then have "size_list size cs < size tree"
    by (cases tree) simp
  then show "(Inr (cs, i), Inl (tree, i)) \<in> measure (\<lambda>a. case a of
      Inl (t, _) \<Rightarrow> 2 * size t | Inr (cs, _) \<Rightarrow> 2 * size_list size cs + 1)"
    by simp
qed auto

text \<open>\<^verbatim>\<open>replaceSubtreeAtNode\<close> (LifeTree.tsx, 487-504).\<close>

function replaceSubtreeAtNode ::
  "LifeNodeData \<Rightarrow> string \<Rightarrow> LifeNodeData list \<Rightarrow> LifeNodeData" where
  "replaceSubtreeAtNode tree nodeId newChildren =
     (if node_id tree = nodeId then with_children tree newChildren
      else case children tree of
        Some cs \<Rightarrow>
          with_children tree
            (map (\<lambda>child. replaceSubtreeAtNode child nodeId newChildren) cs)
      | None \<Rightarrow> tree)"
  by pat_completeness auto
termination
proof (relation "measure (\<lambda>(tree, _, _). size tree)")
  fix tree child :: LifeNodeData and nodeId :: string
    and newChildren cs :: "LifeNodeData list"
  assume "children tree = Some cs" and "child \<in> set cs"
  then have "size child < size tree"
    using size_list_estimation' [of child cs "size child" size]
    by (cases tree) simp
  then show "((child, nodeId, newChildren), (tree, nodeId, newChildren))
      \<in> measure (\<lambda>(tree, _, _). size tree)"
    by simp
qed simp

declare findNodeById.simps [simp del]
declare replaceSubtreeAtNode.simps [simp del]

subsection \<open>Document order and one-hole contexts\<close>

text \<open>The nodes of a tree in depth-first document order (a node, then its children's
  subtrees from left to right), and the identifiers in that order.\<close>

function preorder :: "LifeNodeData \<Rightarrow> LifeNodeData list" where
  "preorder tree =
     tree # (case children tree of
        Some cs \<Rightarrow> concat (map preorder cs)
      | None \<Rightarrow> [])"
  by pat_completeness auto
termination
proof (relation "measure size")
  fix tree child :: LifeNodeData and cs
  assume "children tree = Some cs" and "child \<in> set cs"
  then have "size child < size tree"
    using size_list_estimation' [of child cs "size child" size]
    by (cases tree) simp
  then show "(child, tree) \<in> measure size"
    by simp
qed simp

declare preorder.simps [simp del]

definition node_ids :: "LifeNodeData \<Rightarrow> string list" where
  "node_ids tree = map node_id (preorder tree)"

text \<open>
  A tree with one subtree taken out. \<open>Child parent left c right\<close> is the node \<open>parent\<close>
  whose children are \<open>left\<close>, then the child that holds the hole (itself the context
  \<open>c\<close>), then \<open>right\<close>; the \<open>children\<close> field of \<open>parent\<close> itself is not read.
  \<open>plug c n\<close> puts \<open>n\<close> into the hole. \<open>ctx_ids_before c\<close> are the identifiers that
  come before the hole in document order: the ancestors and the subtrees to the left.
  \<open>map_siblings f c\<close> applies \<open>f\<close> to every subtree that hangs off the path to the hole:
  the siblings of the hole and of each of its ancestors.
\<close>

datatype ctx = Top | Child LifeNodeData "LifeNodeData list" ctx "LifeNodeData list"

fun plug :: "ctx \<Rightarrow> LifeNodeData \<Rightarrow> LifeNodeData" where
  "plug Top n = n"
| "plug (Child parent left c right) n = with_children parent (left @ plug c n # right)"

fun ctx_ids_before :: "ctx \<Rightarrow> string list" where
  "ctx_ids_before Top = []"
| "ctx_ids_before (Child parent left c right) =
     node_id parent # concat (map node_ids left) @ ctx_ids_before c"

fun map_siblings :: "(LifeNodeData \<Rightarrow> LifeNodeData) \<Rightarrow> ctx \<Rightarrow> ctx" where
  "map_siblings f Top = Top"
| "map_siblings f (Child parent left c right) =
     Child parent (map f left) (map_siblings f c) (map f right)"

text \<open>
  Concrete trees for the closed instances below: a root \<open>root\<close> with the children
  \<open>option-a\<close> (which has the child \<open>a-5yr\<close>) and \<open>option-b\<close>; and a tree in which the
  identifier \<open>dup\<close> is carried by two sibling nodes.
\<close>

definition leaf :: "string \<Rightarrow> string \<Rightarrow> TimeFrame \<Rightarrow> LifeNodeData" where
  "leaf i t tf = LifeNodeData i t [] tf Neutral None None"

definition example_tree :: LifeNodeData where
  "example_tree =
     LifeNodeData ''root'' ''Decision'' [] Now Neutral None
       (Some [LifeNodeData ''option-a'' ''Path A'' [] Yr1 Positive (Some 60)
                (Some [leaf ''a-5yr'' ''A later'' Yr5]),
              LifeNodeData ''option-b'' ''Path B'' [] Yr1 Negative (Some 40) (Some [])])"

definition duplicate_id_tree :: LifeNodeData where
  "duplicate_id_tree =
     LifeNodeData ''root'' ''Decision'' [] Now Neutral None
       (Some [leaf ''dup'' ''First'' Yr1,
              LifeNodeData ''dup'' ''Second'' [] Yr1 Neutral None
                (Some [leaf ''kept'' ''Below the second'' Yr5])])"

subsection \<open>The tree as objects on the heap\<close>

text \<open>
  The functions above work on values. To say what \<^verbatim>\<open>replaceSubtreeAtNode\<close> does to the
  objects it is given, the same function is embedded once more over an explicit heap.
  A reference is an index into the heap. A cell is a node object, whose \<^verbatim>\<open>children\<close>
  property is missing or refers to an array, or an array of references to node objects.
  Allocation appends a cell; nothing in the function assigns to a cell that exists.

  The object spread \<^verbatim>\<open>{ ...tree, children: c }\<close> allocates a node object with the fields
  of \<open>tree\<close> and the children \<open>c\<close>; \<^verbatim>\<open>tree.children.map(f)\<close> calls \<open>f\<close> on the elements from
  left to right and allocates the array of the results. A heap may hold a cycle, on
  which the source recurses until the stack overflows: the embedding takes the depth of
  recursion it may use and returns \<open>None\<close> when that is used up, or when a reference does
  not hold the kind of cell the types promise.
\<close>

type_synonym ref = nat

datatype cell =
    NodeObject string string string TimeFrame Sentiment "int option" "ref option"
  | ArrayObject "ref list"

type_synonym heap = "cell list"

definition cell_at :: "heap \<Rightarrow> ref \<Rightarrow> cell option" where
  "cell_at h r = (if r < length h then Some (h ! r) else None)"

definition alloc :: "cell \<Rightarrow> heap \<Rightarrow> ref \<times> heap" where
  "alloc c h = (length h, h @ [c])"

fun replaceSubtreeAtNode_heap ::
    "nat \<Rightarrow> heap \<Rightarrow> ref \<Rightarrow> string \<Rightarrow> ref \<Rightarrow> (ref \<times> heap) option"
  and map_replace_heap ::
    "nat \<Rightarrow> heap \<Rightarrow> ref list \<Rightarrow> string \<Rightarrow> ref \<Rightarrow> (ref list \<times> heap) option" where
  "replaceSubtreeAtNode_heap 0 h tree nodeId newChildren = None"
| "replaceSubtreeAtNode_heap (Suc depth) h tree nodeId newChildren =
     (case cell_at h tree of
        Some (NodeObject i t d tf s p ch) \<Rightarrow>
          if i = nodeId then Some (alloc (NodeObject i t d tf s p (Some newChildren)) h)
          else (case ch of
                  Some array \<Rightarrow>
                    (case cell_at h array of
                       Some (ArrayObject elements) \<Rightarrow>
                         (case map_replace_heap depth h elements nodeId newChildren of
                            Some (mapped, h1) \<Rightarrow>
                              let (array', h2) = alloc (ArrayObject mapped) h1
                              in Some (alloc (NodeObject i t d tf s p (Some array')) h2)
                          | None \<Rightarrow> None)
                     | Some (NodeObject i' t' d' tf' s' p' ch') \<Rightarrow> None
                     | None \<Rightarrow> None)
                | None \<Rightarrow> Some (tree, h))
      | Some (ArrayObject elements) \<Rightarrow> None
      | None \<Rightarrow> None)"
| "map_replace_heap depth h [] nodeId newChildren = Some ([], h)"
| "map_replace_heap depth h (child # rest) nodeId newChildren =
     (case replaceSubtreeAtNode_heap depth h child nodeId newChildren of
        Some (child', h1) \<Rightarrow>
          (case map_replace_heap depth h1 rest nodeId newChildren of
             Some (rest', h2) \<Rightarrow> Some (child' # rest', h2)
           | None \<Rightarrow> None)
      | None \<Rightarrow> None)"

text \<open>
  The tree a reference holds, read to the given depth: \<open>None\<close> when the cells are not a
  tree of at most that depth. \<open>trees_at\<close> reads the elements of an array.
\<close>

fun tree_at :: "nat \<Rightarrow> heap \<Rightarrow> ref \<Rightarrow> LifeNodeData option"
  and trees_at :: "nat \<Rightarrow> heap \<Rightarrow> ref list \<Rightarrow> LifeNodeData list option" where
  "tree_at 0 h r = None"
| "tree_at (Suc depth) h r =
     (case cell_at h r of
        Some (NodeObject i t d tf s p ch) \<Rightarrow>
          (case ch of
             Some array \<Rightarrow>
               (case cell_at h array of
                  Some (ArrayObject elements) \<Rightarrow>
                    (case trees_at depth h elements of
                       Some cs \<Rightarrow> Some (LifeNodeData i t d tf s p (Some cs))
                     | None \<Rightarrow> None)
                | Some (NodeObject i' t' d' tf' s' p' ch') \<Rightarrow> None
                | None \<Rightarrow> None)
           | None \<Rightarrow> Some (LifeNodeData i t d tf s p None))
      | Some (ArrayObject elements) \<Rightarrow> None
      | None \<Rightarrow> None)"
| "trees_at depth h [] = Some []"
| "trees_at depth h (r # rs) =
     (case tree_at depth h r of
        Some t \<Rightarrow> (case trees_at depth h rs of Some ts \<Rightarrow> Some (t # ts) | None \<Rightarrow> None)
      | None \<Rightarrow> None)"

text \<open>A heap that holds \<open>example_tree\<close> at reference 5, for the closed instances.\<close>

definition example_heap :: heap where
  "example_heap =
     [NodeObject ''a-5yr'' ''A later'' [] Yr5 Neutral None None,
      ArrayObject [0],
      NodeObject ''option-a'' ''Path A'' [] Yr1 Positive (Some 60) (Some 1),
      ArrayObject [],
      NodeObject ''option-b'' ''Path B'' [] Yr1 Negative (Some 40) (Some 3),
      NodeObject ''root'' ''Decision'' [] Now Neutral None (Some 6),
      ArrayObject [2, 4],
      ArrayObject []]"

section \<open>Rate limiting (src/lib/rateLimit.ts) and its use by the generate endpoint\<close>

text \<open>
  \<^verbatim>\<open>const RATE_LIMIT_DISABLED = true\<close>, the entry and configuration records, and the
  module's \<^verbatim>\<open>rateLimitStore\<close>, a \<^verbatim>\<open>Map\<close> from identifier to entry. The numbers are
  milliseconds and counts: integers.
\<close>

definition RATE_LIMIT_DISABLED :: bool where
  "RATE_LIMIT_DISABLED = True"

record RateLimitEntry =
  count :: int
  resetTime :: int

record RateLimitConfig =
  windowMs :: int
  maxRequests :: int

record RateLimitResult =
  allowed :: bool
  remaining :: int
  resetIn :: int

type_synonym rateLimitStore = "string \<rightharpoonup> RateLimitEntry"

text \<open>
  \<^verbatim>\<open>rateLimit\<close> (rateLimit.ts, 15-60), with the store passed in and returned. \<open>config\<close> is
  \<open>None\<close> when the caller leaves the argument out and the default applies; \<open>now\<close> is what
  \<^verbatim>\<open>Date.now()\<close> would return and \<open>random\<close> what \<^verbatim>\<open>Math.random()\<close> would. The sweep
  deletes every expired entry; \<^verbatim>\<open>entry\<close> was read before the sweep, and
  \<^verbatim>\<open>entry.count++\<close> updates the object the map still holds.
\<close>

definition sweep :: "int \<Rightarrow> rateLimitStore \<Rightarrow> rateLimitStore" where
  "sweep now store =
     (\<lambda>key. case store key of
        Some val \<Rightarrow> if resetTime val < now then None else Some val
      | None \<Rightarrow> None)"

definition rateLimit ::
  "string \<Rightarrow> RateLimitConfig option \<Rightarrow> int \<Rightarrow> real \<Rightarrow> rateLimitStore \<Rightarrow>
     RateLimitResult \<times> rateLimitStore" where
  "rateLimit identifier config_arg now random store =
     (let config = (case config_arg of
                      Some c \<Rightarrow> c
                    | None \<Rightarrow> \<lparr>windowMs = 60000, maxRequests = 10\<rparr>)
      in if RATE_LIMIT_DISABLED
         then (\<lparr>allowed = True, remaining = 999, resetIn = 0\<rparr>, store)
         else
           let entry = store identifier;
               swept = (if random < 1 / 100 then sweep now store else store)
           in case entry of
                None \<Rightarrow>
                  (\<lparr>allowed = True, remaining = maxRequests config - 1,
                    resetIn = windowMs config\<rparr>,
                   swept(identifier \<mapsto> \<lparr>count = 1, resetTime = now + windowMs config\<rparr>))
              | Some e \<Rightarrow>
                  if resetTime e < now
                  then (\<lparr>allowed = True, remaining = maxRequests config - 1,
                         resetIn = windowMs config\<rparr>,
                        swept(identifier \<mapsto>
                          \<lparr>count = 1, resetTime = now + windowMs config\<rparr>))
                  else if maxRequests config \<le> count e
                  then (\<lparr>allowed = False, remaining = 0, resetIn = resetTime e - now\<rparr>,
                        swept)
                  else (\<lparr>allowed = True, remaining = maxRequests config - (count e + 1),
                         resetIn = resetTime e - now\<rparr>,
                        swept(identifier \<mapsto> e\<lparr>count := count e + 1\<rparr>)))"

text \<open>
  \<^verbatim>\<open>getClientIP\<close> (rateLimit.ts, 62-72). A header is \<open>None\<close> when the request does not
  carry it; \<^verbatim>\<open>if (forwarded)\<close> also fails on the empty string. \<^verbatim>\<open>split(",")[0]\<close> is
  the text before the first comma, \<^verbatim>\<open>trim()\<close> strips white space at both ends (here
  the ASCII white space characters).
\<close>

record request_headers =
  x_forwarded_for :: "string option"
  x_real_ip :: "string option"

definition is_space :: "char \<Rightarrow> bool" where
  "is_space c = (c \<in> {CHR '' '', CHR 0x09, CHR 0x0A, CHR 0x0B, CHR 0x0C, CHR 0x0D})"

definition trim :: "string \<Rightarrow> string" where
  "trim s = rev (dropWhile is_space (rev (dropWhile is_space s)))"

definition truthy_string :: "string option \<Rightarrow> bool" where
  "truthy_string v = (case v of Some s \<Rightarrow> s \<noteq> [] | None \<Rightarrow> False)"

definition getClientIP :: "request_headers \<Rightarrow> string" where
  "getClientIP request =
     (if truthy_string (x_forwarded_for request)
      then trim (takeWhile (\<lambda>c. c \<noteq> CHR '','') (the (x_forwarded_for request)))
      else if truthy_string (x_real_ip request)
      then the (x_real_ip request)
      else ''unknown'')"

text \<open>
  The generate endpoint (src/app/api/generate/route.ts, 397-518). Its
  \<^verbatim>\<open>RATE_LIMIT_CONFIG\<close> is \<^verbatim>\<open>{ windowMs: 60000, maxRequests: 5 }\<close>. The handler first asks
  \<open>rateLimit\<close> and answers 429 when the request is not allowed. What follows talks to
  the request body and to the language model; \<open>generate_steps\<close> records how those steps
  went: whether \<^verbatim>\<open>request.json()\<close> resolved, whether \<^verbatim>\<open>decision\<close> was truthy, whether
  \<^verbatim>\<open>anthropic.messages.create\<close> resolved, whether its content held a text block, and
  whether \<^verbatim>\<open>JSON.parse\<close> accepted the text. Every \<^verbatim>\<open>throw\<close> ends in the handler's
  \<^verbatim>\<open>catch\<close>, which answers 500.
\<close>

definition RATE_LIMIT_CONFIG :: RateLimitConfig where
  "RATE_LIMIT_CONFIG = \<lparr>windowMs = 60000, maxRequests = 5\<rparr>"

record generate_steps =
  body_parsed :: bool
  decision_given :: bool
  model_answered :: bool
  text_block_found :: bool
  json_accepted :: bool

datatype generate_response =
    RateLimited int
  | DecisionRequired
  | Generated
  | GenerateFailed

fun generate_status :: "generate_response \<Rightarrow> nat" where
  "generate_status (RateLimited seconds) = 429"
| "generate_status DecisionRequired = 400"
| "generate_status Generated = 200"
| "generate_status GenerateFailed = 500"

definition generate_POST ::
  "request_headers \<Rightarrow> generate_steps \<Rightarrow> int \<Rightarrow> real \<Rightarrow> rateLimitStore \<Rightarrow>
     generate_response \<times> rateLimitStore" where
  "generate_POST request steps now random store =
     (let clientIP = getClientIP request;
          (rateLimitResult, store') =
             rateLimit (''generate:'' @ clientIP) (Some RATE_LIMIT_CONFIG) now random store
      in if \<not> allowed rateLimitResult
         then (RateLimited (- ((- resetIn rateLimitResult) div 1000)), store')
         else if \<not> body_parsed steps then (GenerateFailed, store')
         else if \<not> decision_given steps then (DecisionRequired, store')
         else if \<not> model_answered steps then (GenerateFailed, store')
         else if \<not> text_block_found steps then (GenerateFailed, store')
         else if \<not> json_accepted steps then (GenerateFailed, store')
         else (Generated, store'))"

section \<open>Digest authentication against the control plane (tidbCloudFetch)\<close>

text \<open>
  \<^verbatim>\<open>tidbCloudFetch\<close> stands twice in the sources, in the timelines route
  (src/unnamed/part_000, 14-74) and in the branches route (src/unnamed/part_001,
  103-173), with the same statements; one definition embeds both.

  What the function needs from outside is passed in: the process environment, the MD5
  digest in hexadecimal (\<^verbatim>\<open>crypto.createHash("md5").update(s).digest("hex")\<close>), the
  client nonce (\<^verbatim>\<open>crypto.randomBytes(8).toString("hex")\<close>) and the network
  (\<^verbatim>\<open>fetch\<close>), a function from the request to the response, \<open>None\<close> when \<^verbatim>\<open>fetch\<close>
  rejects. A request body is the text \<^verbatim>\<open>JSON.stringify(body)\<close>, \<open>None\<close> when no body
  is passed.

  Of a response the callers read the status, the \<^verbatim>\<open>WWW-Authenticate\<close> header and, from
  the JSON body, the fields \<^verbatim>\<open>branchId\<close>, \<^verbatim>\<open>name\<close> and \<^verbatim>\<open>endpoints?.[0]?.host\<close>. A
  JavaScript value that may be missing is a \<open>jsval\<close>; \<open>response_json\<close> is \<open>None\<close> when
  \<^verbatim>\<open>response.json()\<close> rejects.
\<close>

datatype jsval = Undefined | Null | Str string

type_synonym hex = string

type_synonym token = string

type_synonym uri = string

record branch_json =
  branchId_field :: jsval
  name_field :: jsval
  endpoints_0_host :: jsval

record http_request =
  request_method :: string
  request_url :: string
  content_type :: string
  authorization :: "string option"
  request_body :: "string option"

record http_response =
  status :: nat
  www_authenticate :: "string option"
  response_json :: "branch_json option"

record process_env =
  TIDB_CLOUD_PUBLIC_KEY :: "string option"
  TIDB_CLOUD_PRIVATE_KEY :: "string option"
  TIDB_CLOUD_CLUSTER_ID :: "string option"

datatype fetch_error = KeysNotConfigured | NoWWWAuthenticateHeader | FetchRejected

definition TIDB_API_BASE :: string where
  "TIDB_API_BASE = ''https://serverless.tidbapi.com''"

definition dq :: char where
  "dq = CHR 0x22"

text \<open>
  \<^verbatim>\<open>wwwAuth.match(/realm="([^"]+)"/)?.[1]\<close> and its two siblings for \<^verbatim>\<open>nonce\<close> and
  \<^verbatim>\<open>qop\<close>. \<open>capture_at name s\<close> matches the expression at the start of \<open>s\<close>: the name, an
  equals sign, a double quote, one or more characters other than a double quote (the
  group), and a double quote. The group is greedy and the next character must be the
  closing quote, so the group is the whole run of characters up to the next double
  quote. \<open>regex_match\<close> tries every start position from the left, as \<^verbatim>\<open>match\<close> does, and
  is \<open>None\<close> where \<^verbatim>\<open>match\<close> returns \<^verbatim>\<open>null\<close>.
\<close>

definition capture_at :: "string \<Rightarrow> string \<Rightarrow> string option" where
  "capture_at name s =
     (let literal = name @ [CHR ''='', dq] in
      if take (length literal) s = literal
      then (let rest = drop (length literal) s;
                captured = takeWhile (\<lambda>c. c \<noteq> dq) rest;
                after = dropWhile (\<lambda>c. c \<noteq> dq) rest
            in if captured = [] then None
               else if after = [] then None
               else Some captured)
      else None)"

fun regex_match :: "string \<Rightarrow> string \<Rightarrow> string option" where
  "regex_match name [] = None"
| "regex_match name (c # cs) =
     (case capture_at name (c # cs) of
        Some captured \<Rightarrow> Some captured
      | None \<Rightarrow> regex_match name cs)"

text \<open>\<^verbatim>\<open>x || d\<close> on the result of a match: the group is never empty, so the default
  applies exactly when there is no match.\<close>

definition or_default :: "string option \<Rightarrow> string \<Rightarrow> string" where
  "or_default m d = (case m of Some captured \<Rightarrow> captured | None \<Rightarrow> d)"

text \<open>The template of the \<^verbatim>\<open>Authorization\<close> header (part_000, line 64).\<close>

definition authHeader ::
  "string \<Rightarrow> token \<Rightarrow> token \<Rightarrow> uri \<Rightarrow> token \<Rightarrow> string \<Rightarrow> hex \<Rightarrow> hex \<Rightarrow> string" where
  "authHeader publicKey realm nonce uri qop nc cnonce response =
     ''Digest username='' @ [dq] @ publicKey @ [dq] @
     '', realm='' @ [dq] @ realm @ [dq] @
     '', nonce='' @ [dq] @ nonce @ [dq] @
     '', uri='' @ [dq] @ uri @ [dq] @
     '', qop='' @ qop @
     '', nc='' @ nc @
     '', cnonce='' @ [dq] @ cnonce @ [dq] @
     '', response='' @ [dq] @ response @ [dq]"

text \<open>Lines 44-64: from the challenge header to the \<^verbatim>\<open>Authorization\<close> header.\<close>

definition digest_authorization ::
  "(string \<Rightarrow> hex) \<Rightarrow> string \<Rightarrow> string \<Rightarrow> string \<Rightarrow> hex \<Rightarrow> string \<Rightarrow> uri \<Rightarrow> string" where
  "digest_authorization md5 publicKey privateKey wwwAuth cnonce method path =
     (let realm = or_default (regex_match ''realm'' wwwAuth) [];
          nonce = or_default (regex_match ''nonce'' wwwAuth) [];
          qop = or_default (regex_match ''qop'' wwwAuth) ''auth'';
          nc = ''00000001'';
          ha1 = md5 (publicKey @ '':'' @ realm @ '':'' @ privateKey);
          uri = path;
          ha2 = md5 (method @ '':'' @ uri);
          response =
            md5 (ha1 @ '':'' @ nonce @ '':'' @ nc @ '':'' @ cnonce @ '':'' @ qop @ '':'' @ ha2)
      in authHeader publicKey realm nonce uri qop nc cnonce response)"

text \<open>
  The two requests of the handshake: the first without credentials, the second the same
  with the \<^verbatim>\<open>Authorization\<close> header added.
\<close>

definition initialRequest :: "string \<Rightarrow> uri \<Rightarrow> string option \<Rightarrow> http_request" where
  "initialRequest method path body =
     \<lparr>request_method = method, request_url = TIDB_API_BASE @ path,
      content_type = ''application/json'', authorization = None, request_body = body\<rparr>"

definition authenticatedRequest ::
  "string \<Rightarrow> uri \<Rightarrow> string option \<Rightarrow> string \<Rightarrow> http_request" where
  "authenticatedRequest method path body header =
     \<lparr>request_method = method, request_url = TIDB_API_BASE @ path,
      content_type = ''application/json'', authorization = Some header,
      request_body = body\<rparr>"

text \<open>
  \<open>tidbCloudFetch\<close> returns what the \<^verbatim>\<open>Promise\<close> settles to (\<open>Inl\<close>: it rejects) and the
  requests it has sent, in order.
\<close>

definition tidbCloudFetch ::
  "process_env \<Rightarrow> (string \<Rightarrow> hex) \<Rightarrow> hex \<Rightarrow> (http_request \<Rightarrow> http_response option) \<Rightarrow>
     string \<Rightarrow> uri \<Rightarrow> string option \<Rightarrow> (fetch_error + http_response) \<times> http_request list" where
  "tidbCloudFetch env md5 cnonce fetch method path body =
     (if \<not> (truthy_string (TIDB_CLOUD_PUBLIC_KEY env) \<and>
              truthy_string (TIDB_CLOUD_PRIVATE_KEY env))
      then (Inl KeysNotConfigured, [])
      else
        let publicKey = the (TIDB_CLOUD_PUBLIC_KEY env);
            privateKey = the (TIDB_CLOUD_PRIVATE_KEY env);
            first = initialRequest method path body
        in case fetch first of
             None \<Rightarrow> (Inl FetchRejected, [first])
           | Some initialResponse \<Rightarrow>
               if status initialResponse \<noteq> 401
               then (Inr initialResponse, [first])
               else if \<not> truthy_string (www_authenticate initialResponse)
               then (Inl NoWWWAuthenticateHeader, [first])
               else
                 let wwwAuth = the (www_authenticate initialResponse);
                     retry =
                       authenticatedRequest method path body
                         (digest_authorization md5 publicKey privateKey wwwAuth cnonce
                            method path)
                 in case fetch retry of
                      None \<Rightarrow> (Inl FetchRejected, [first, retry])
                    | Some response \<Rightarrow> (Inr response, [first, retry]))"

text \<open>
  The formula as the specification documents it (section 4.1), for the comparison with
  what the code sends:
  \<^verbatim>\<open>HA1 = hash(username ":" realm ":" password)\<close>,
  \<^verbatim>\<open>HA2 = hash(method ":" requestURI)\<close>,
  \<^verbatim>\<open>response = hash(HA1 ":" nonce ":" nonceCount ":" clientNonce ":" quality ":" HA2)\<close>.
\<close>

definition spec_HA1 :: "(string \<Rightarrow> hex) \<Rightarrow> string \<Rightarrow> token \<Rightarrow> string \<Rightarrow> hex" where
  "spec_HA1 hash username realm password = hash (username @ '':'' @ realm @ '':'' @ password)"

definition spec_HA2 :: "(string \<Rightarrow> hex) \<Rightarrow> string \<Rightarrow> uri \<Rightarrow> hex" where
  "spec_HA2 hash method requestURI = hash (method @ '':'' @ requestURI)"

definition spec_response ::
  "(string \<Rightarrow> hex) \<Rightarrow> string \<Rightarrow> string \<Rightarrow> token \<Rightarrow> token \<Rightarrow> string \<Rightarrow> hex \<Rightarrow> token \<Rightarrow>
     string \<Rightarrow> uri \<Rightarrow> hex" where
  "spec_response hash username password realm nonce nonceCount clientNonce quality
       method requestURI =
     hash (spec_HA1 hash username realm password @ '':'' @ nonce @ '':'' @ nonceCount @ '':'' @
           clientNonce @ '':'' @ quality @ '':'' @ spec_HA2 hash method requestURI)"

text \<open>
  A control plane for the closed instances below: it answers a request without
  credentials with 401 and the given challenge header, and any request with
  credentials with 200. \<open>toy_hash\<close> stands in for MD5 there; what the instances show
  does not depend on the digest function.
\<close>

definition challenging_server :: "string option \<Rightarrow> http_request \<Rightarrow> http_response option" where
  "challenging_server challenge request =
     (case authorization request of
        None \<Rightarrow> Some \<lparr>status = 401, www_authenticate = challenge, response_json = None\<rparr>
      | Some credentials \<Rightarrow>
          Some \<lparr>status = 200, www_authenticate = None, response_json = None\<rparr>)"

definition toy_hash :: "string \<Rightarrow> string" where
  "toy_hash s = ''h('' @ s @ '')''"

definition example_env :: process_env where
  "example_env =
     \<lparr>TIDB_CLOUD_PUBLIC_KEY = Some ''pub'', TIDB_CLOUD_PRIVATE_KEY = Some ''priv'',
      TIDB_CLOUD_CLUSTER_ID = Some ''cluster1''\<rparr>"

definition full_challenge :: string where
  "full_challenge =
     ''Digest realm='' @ [dq] @ ''tidb.cloud'' @ [dq] @ '', nonce='' @ [dq] @ ''n0nce'' @ [dq]"

definition bare_challenge :: string where
  "bare_challenge = ''Digest qop='' @ [dq] @ ''auth'' @ [dq]"

section \<open>The timelines store (timelines routes, src/unnamed/part_000)\<close>

text \<open>
  The table \<^verbatim>\<open>timelines\<close> (created in src/unnamed/part_001, 340-352): the primary key
  \<^verbatim>\<open>id\<close> maps to the other columns. \<^verbatim>\<open>tree_data\<close> is a JSON column; the model holds the
  document it stores, a tree. \<^verbatim>\<open>JSON.stringify\<close> on the way in and the driver's decoding
  (or \<^verbatim>\<open>JSON.parse\<close> where the driver hands back text) on the way out are inverse on
  documents and are not modelled.
\<close>

record timeline_row =
  session_id :: string
  name :: string
  parent_timeline_id :: "string option"
  branch_id :: "string option"
  branch_host :: "string option"
  tree_data :: LifeNodeData
  branched_from_node :: "string option"
  created_at :: nat

type_synonym timelines = "string \<rightharpoonup> timeline_row"

text \<open>
  A database call of a handler, and the log of the calls made, each with whether it
  succeeded. The main cluster is reached through the pool (\<^verbatim>\<open>pool.getConnection()\<close>,
  \<^verbatim>\<open>connection.execute\<close>); a branch through \<^verbatim>\<open>getBranchConnection(host)\<close>, which makes
  a new connection to the host (and reads the CA file), and \<^verbatim>\<open>branchConn.execute\<close>.
  \<^verbatim>\<open>connection.release()\<close> and \<^verbatim>\<open>branchConn.end()\<close> do not fail (the promise of
  \<^verbatim>\<open>end\<close> always resolves) and are not logged.
\<close>

datatype db_call =
    PoolGetConnection
  | MainSelect
  | MainUpdate
  | MainInsert
  | BranchConnect string
  | BranchSelect string
  | BranchUpdate string
  | BranchUpsert string

type_synonym db_event = "db_call \<times> bool"

text \<open>
  The state the handlers work on: the table in the main cluster, the table of the branch
  database reachable at each host, and the log. Which calls fail for reasons outside
  the model (connection refused, authentication, a branch still initializing, a
  statement the server rejects) is an input of each handler, \<open>fails\<close>; a failed call
  changes no table.
\<close>

record stores =
  main_cluster :: timelines
  branches :: "string \<Rightarrow> timelines"
  trace :: "db_event list"

definition record_call :: "db_call \<Rightarrow> bool \<Rightarrow> stores \<Rightarrow> stores" where
  "record_call call ok s = s\<lparr>trace := trace s @ [(call, ok)]\<rparr>"

definition new_events :: "stores \<Rightarrow> stores \<Rightarrow> db_event list" where
  "new_events before after = drop (length (trace before)) (trace after)"

text \<open>
  The three statements that write \<^verbatim>\<open>timelines\<close>:
  \<^verbatim>\<open>UPDATE timelines SET tree_data = ? WHERE id = ?\<close> changes the payload of the row with
  that key and nothing where there is no such row;
  \<^verbatim>\<open>INSERT INTO timelines (...) VALUES (...)\<close> adds a row and is an error (\<open>None\<close>) where
  the key exists;
  \<^verbatim>\<open>INSERT ... ON DUPLICATE KEY UPDATE tree_data = VALUES(tree_data)\<close> adds the row, or
  where the key exists sets the payload of the existing row to the new one.
\<close>

definition sql_update_tree_data :: "timelines \<Rightarrow> string \<Rightarrow> LifeNodeData \<Rightarrow> timelines" where
  "sql_update_tree_data table key payload =
     (case table key of
        Some row \<Rightarrow> table(key \<mapsto> row\<lparr>tree_data := payload\<rparr>)
      | None \<Rightarrow> table)"

definition sql_insert :: "timelines \<Rightarrow> string \<Rightarrow> timeline_row \<Rightarrow> timelines option" where
  "sql_insert table key row =
     (case table key of
        Some existing \<Rightarrow> None
      | None \<Rightarrow> Some (table(key \<mapsto> row)))"

definition sql_insert_on_duplicate_key_update_tree_data ::
  "timelines \<Rightarrow> string \<Rightarrow> timeline_row \<Rightarrow> timelines" where
  "sql_insert_on_duplicate_key_update_tree_data table key row =
     (case table key of
        Some existing \<Rightarrow> table(key \<mapsto> existing\<lparr>tree_data := tree_data row\<rparr>)
      | None \<Rightarrow> table(key \<mapsto> row))"

text \<open>
  What a handler answers: the HTTP status and the JSON body.
  \<open>Failure e\<close> is \<^verbatim>\<open>{ success: false, error: e }\<close>; the other bodies have
  \<^verbatim>\<open>success: true\<close>. \<open>Timeline\<close> holds \<^verbatim>\<open>id, name, branchId, branchHost, treeData,
  branchedFromNode, createdAt, source\<close>; \<open>WrittenTo\<close> holds \<^verbatim>\<open>writtenTo\<close>; \<open>Created\<close> holds
  \<^verbatim>\<open>id, name, branchId, branchHost, hasBranch\<close>.
\<close>

datatype response_body =
    Failure string
  | Timeline string string "string option" "string option" LifeNodeData "string option"
      nat string
  | WrittenTo string
  | Created string string jsval jsval bool

record api_response =
  http_status :: nat
  http_body :: response_body

definition server_error :: "string \<Rightarrow> api_response" where
  "server_error e = \<lparr>http_status = 500, http_body = Failure e\<rparr>"

subsection \<open>GET /api/timelines/[id] (part_000, 266-344)\<close>

text \<open>
  The row is read from the main cluster; the primary key selects at most one. If the
  row names a branch host (\<^verbatim>\<open>if (timeline.branch_host)\<close>: neither null nor empty), the same
  key is read from the branch; any failure in that \<^verbatim>\<open>try\<close> block leaves \<^verbatim>\<open>treeData\<close>
  and \<^verbatim>\<open>source\<close> as they were. A failure outside it ends in the handler's \<^verbatim>\<open>catch\<close>.
\<close>

definition read_branch ::
  "(db_call \<Rightarrow> bool) \<Rightarrow> string \<Rightarrow> timeline_row \<Rightarrow> stores \<Rightarrow> (LifeNodeData \<times> string) \<times> stores" where
  "read_branch fails key timeline s =
     (if truthy_string (branch_host timeline)
      then
        let host = the (branch_host timeline);
            s1 = record_call (BranchConnect host) (\<not> fails (BranchConnect host)) s
        in if fails (BranchConnect host) then ((tree_data timeline, ''main''), s1)
           else
             let s2 = record_call (BranchSelect host) (\<not> fails (BranchSelect host)) s1
             in if fails (BranchSelect host) then ((tree_data timeline, ''main''), s2)
                else case branches s2 host key of
                       Some branchRow \<Rightarrow> ((tree_data branchRow, ''branch''), s2)
                     | None \<Rightarrow> ((tree_data timeline, ''main''), s2)
      else ((tree_data timeline, ''main''), s))"

definition GET_timeline :: "(db_call \<Rightarrow> bool) \<Rightarrow> string \<Rightarrow> stores \<Rightarrow> api_response \<times> stores" where
  "GET_timeline fails key s =
     (let s1 = record_call PoolGetConnection (\<not> fails PoolGetConnection) s
      in if fails PoolGetConnection then (server_error ''Failed to get timeline'', s1)
         else
           let s2 = record_call MainSelect (\<not> fails MainSelect) s1
           in if fails MainSelect then (server_error ''Failed to get timeline'', s2)
              else case main_cluster s2 key of
                     None \<Rightarrow>
                       (\<lparr>http_status = 404, http_body = Failure ''Timeline not found''\<rparr>, s2)
                   | Some timeline \<Rightarrow>
                       let ((treeData, source), s3) = read_branch fails key timeline s2
                       in (\<lparr>http_status = 200,
                            http_body = Timeline key (name timeline) (branch_id timeline)
                                     (branch_host timeline) treeData
                                     (branched_from_node timeline) (created_at timeline)
                                     source\<rparr>,
                           s3))"

subsection \<open>PUT /api/timelines/[id] (part_000, 347-415)\<close>

text \<open>
  The request body is \<open>None\<close> when \<^verbatim>\<open>request.json()\<close> rejects, \<open>Some None\<close> when
  \<^verbatim>\<open>treeData\<close> is missing (\<^verbatim>\<open>if (!treeData)\<close>), and \<open>Some (Some tree)\<close> otherwise.
  \<open>write_branch\<close> is the \<^verbatim>\<open>if (branchHost) { try ... catch ... }\<close> block with the tag it
  leaves in \<^verbatim>\<open>writtenTo\<close>.
\<close>

definition write_branch ::
  "(db_call \<Rightarrow> bool) \<Rightarrow> string \<Rightarrow> string option \<Rightarrow> LifeNodeData \<Rightarrow> stores \<Rightarrow> string \<times> stores" where
  "write_branch fails key branchHost treeData s =
     (if truthy_string branchHost
      then
        let host = the branchHost;
            s1 = record_call (BranchConnect host) (\<not> fails (BranchConnect host)) s
        in if fails (BranchConnect host) then (''main-only'', s1)
           else
             let s2 = record_call (BranchUpdate host) (\<not> fails (BranchUpdate host)) s1
             in if fails (BranchUpdate host) then (''main-only'', s2)
                else (''both'',
                      s2\<lparr>branches := (branches s2)
                          (host := sql_update_tree_data (branches s2 host) key treeData)\<rparr>)
      else (''main'', s))"

definition PUT_timeline ::
  "(db_call \<Rightarrow> bool) \<Rightarrow> string \<Rightarrow> LifeNodeData option option \<Rightarrow> stores \<Rightarrow> api_response \<times> stores" where
  "PUT_timeline fails key request_json s =
     (case request_json of
        None \<Rightarrow> (server_error ''Failed to update timeline'', s)
      | Some None \<Rightarrow> (\<lparr>http_status = 400, http_body = Failure ''treeData is required''\<rparr>, s)
      | Some (Some treeData) \<Rightarrow>
          let s1 = record_call PoolGetConnection (\<not> fails PoolGetConnection) s
          in if fails PoolGetConnection then (server_error ''Failed to update timeline'', s1)
             else
               let s2 = record_call MainSelect (\<not> fails MainSelect) s1
               in if fails MainSelect then (server_error ''Failed to update timeline'', s2)
                  else case main_cluster s2 key of
                         None \<Rightarrow>
                           (\<lparr>http_status = 404, http_body = Failure ''Timeline not found''\<rparr>, s2)
                       | Some timeline \<Rightarrow>
                           let branchHost = branch_host timeline;
                               s3 = record_call MainUpdate (\<not> fails MainUpdate) s2
                           in if fails MainUpdate
                              then (server_error ''Failed to update timeline'', s3)
                              else
                                let s4 = s3\<lparr>main_cluster :=
                                           sql_update_tree_data (main_cluster s3) key treeData\<rparr>;
                                    (writtenTo, s5) =
                                      write_branch fails key branchHost treeData s4
                                in (\<lparr>http_status = 200, http_body = WrittenTo writtenTo\<rparr>, s5))"

subsection \<open>POST /api/timelines (part_000, 119-245)\<close>

text \<open>
  The request body, \<open>None\<close> for a field that is missing, and what the handler draws from
  outside: the identifier \<^verbatim>\<open>generateId()\<close> returns, the client nonces of the two
  control-plane calls, and the time stamps the two databases give \<^verbatim>\<open>created_at\<close>.
\<close>

record create_body =
  sessionId :: "string option"
  timelineName :: "string option"
  treeData :: "LifeNodeData option"
  parentTimelineId :: "string option"
  branchedFromNode :: "string option"
  createBranch :: bool

record create_inputs =
  timelineId :: string
  cnonce_create :: hex
  cnonce_details :: hex
  now_main :: nat
  now_branch :: nat

text \<open>JavaScript's truth test and its conversion to a string in a template literal; the
  value an SQL parameter stores (\<^verbatim>\<open>null\<close> is NULL); and \<^verbatim>\<open>x || null\<close> on a string.\<close>

definition truthy :: "jsval \<Rightarrow> bool" where
  "truthy v = (case v of Str s \<Rightarrow> s \<noteq> [] | Null \<Rightarrow> False | Undefined \<Rightarrow> False)"

definition js_string :: "jsval \<Rightarrow> string" where
  "js_string v = (case v of Str s \<Rightarrow> s | Null \<Rightarrow> ''null'' | Undefined \<Rightarrow> ''undefined'')"

definition sql_value :: "jsval \<Rightarrow> string option" where
  "sql_value v = (case v of Str s \<Rightarrow> Some s | Null \<Rightarrow> None | Undefined \<Rightarrow> None)"

definition or_null :: "string option \<Rightarrow> string option" where
  "or_null v = (if truthy_string v then v else None)"

definition response_ok :: "http_response \<Rightarrow> bool" where
  "response_ok r = (200 \<le> status r \<and> status r \<le> 299)"

text \<open>
  Lines 141-181, for a truthy \<^verbatim>\<open>createBranch\<close>: the branch is created and its details are
  read, both through \<open>tidbCloudFetch\<close>; the result is \<^verbatim>\<open>branchId\<close> and \<^verbatim>\<open>branchHost\<close>, both
  \<^verbatim>\<open>null\<close> at first. Every failure inside the \<^verbatim>\<open>try\<close> block (a rejected fetch, a body that
  is not JSON) leaves the two variables as they are at that point.
\<close>

definition createTidbBranch ::
  "process_env \<Rightarrow> (string \<Rightarrow> hex) \<Rightarrow> (http_request \<Rightarrow> http_response option) \<Rightarrow> create_inputs \<Rightarrow>
     jsval \<times> jsval" where
  "createTidbBranch env md5 fetch inputs =
     (if \<not> truthy_string (TIDB_CLOUD_CLUSTER_ID env) then (Null, Null)
      else
        let clusterId = the (TIDB_CLOUD_CLUSTER_ID env);
            branchName = ''timeline-'' @ timelineId inputs;
            displayName =
              ''{'' @ [dq] @ ''displayName'' @ [dq] @ '':'' @ [dq] @ branchName @ [dq] @ ''}''
        in case fst (tidbCloudFetch env md5 (cnonce_create inputs) fetch ''POST''
                       (''/v1beta1/clusters/'' @ clusterId @ ''/branches'')
                       (Some displayName)) of
             Inl e \<Rightarrow> (Null, Null)
           | Inr branchResponse \<Rightarrow>
               if \<not> response_ok branchResponse then (Null, Null)
               else case response_json branchResponse of
                      None \<Rightarrow> (Null, Null)
                    | Some branchData \<Rightarrow>
                        let branchId =
                              (if truthy (branchId_field branchData)
                               then branchId_field branchData
                               else name_field branchData)
                        in case fst (tidbCloudFetch env md5 (cnonce_details inputs) fetch
                                       ''GET''
                                       (''/v1beta1/clusters/'' @ clusterId @ ''/branches/'' @
                                        js_string branchId)
                                       None) of
                             Inl e \<Rightarrow> (branchId, Null)
                           | Inr detailsResponse \<Rightarrow>
                               if \<not> response_ok detailsResponse then (branchId, Null)
                               else case response_json detailsResponse of
                                      None \<Rightarrow> (branchId, Null)
                                    | Some details \<Rightarrow>
                                        (branchId, endpoints_0_host details))"

text \<open>
  Lines 201-226: the row is written to the branch when \<^verbatim>\<open>branchHost\<close> is truthy; a
  failure is logged and nothing else.
\<close>

definition copy_to_branch ::
  "(db_call \<Rightarrow> bool) \<Rightarrow> string \<Rightarrow> jsval \<Rightarrow> timeline_row \<Rightarrow> stores \<Rightarrow> stores" where
  "copy_to_branch fails key branchHost row s =
     (if truthy branchHost
      then
        let host = js_string branchHost;
            s1 = record_call (BranchConnect host) (\<not> fails (BranchConnect host)) s
        in if fails (BranchConnect host) then s1
           else
             let s2 = record_call (BranchUpsert host) (\<not> fails (BranchUpsert host)) s1
             in if fails (BranchUpsert host) then s2
                else s2\<lparr>branches := (branches s2)
                       (host := sql_insert_on_duplicate_key_update_tree_data
                                  (branches s2 host) key row)\<rparr>
      else s)"

text \<open>
  The handler. The \<^verbatim>\<open>INSERT\<close> into the main cluster fails when the call fails from
  outside, when a bind parameter is \<^verbatim>\<open>undefined\<close> (the driver rejects the call) or
  when the key exists.
\<close>

definition POST_timelines ::
  "(db_call \<Rightarrow> bool) \<Rightarrow> process_env \<Rightarrow> (string \<Rightarrow> hex) \<Rightarrow> (http_request \<Rightarrow> http_response option) \<Rightarrow>
     create_inputs \<Rightarrow> create_body option \<Rightarrow> stores \<Rightarrow> api_response \<times> stores" where
  "POST_timelines fails env md5 fetch inputs request_json s =
     (case request_json of
        None \<Rightarrow> (server_error ''Failed to create timeline'', s)
      | Some b \<Rightarrow>
          if \<not> (truthy_string (sessionId b) \<and> truthy_string (timelineName b) \<and>
                  treeData b \<noteq> None)
          then (\<lparr>http_status = 400,
                 http_body = Failure ''sessionId, name, and treeData are required''\<rparr>, s)
          else
            let (branchId, branchHost) =
                  (if createBranch b then createTidbBranch env md5 fetch inputs
                   else (Null, Null));
                s1 = record_call PoolGetConnection (\<not> fails PoolGetConnection) s
            in if fails PoolGetConnection
               then (server_error ''Failed to create timeline'', s1)
               else
                 let row =
                       \<lparr>session_id = the (sessionId b), name = the (timelineName b),
                        parent_timeline_id = or_null (parentTimelineId b),
                        branch_id = sql_value branchId, branch_host = sql_value branchHost,
                        tree_data = the (treeData b),
                        branched_from_node = or_null (branchedFromNode b),
                        created_at = now_main inputs\<rparr>;
                     inserted =
                       (if fails MainInsert \<or> branchId = Undefined \<or> branchHost = Undefined
                        then None
                        else sql_insert (main_cluster s1) (timelineId inputs) row);
                     s2 = record_call MainInsert (inserted \<noteq> None) s1
                 in case inserted of
                      None \<Rightarrow> (server_error ''Failed to create timeline'', s2)
                    | Some table \<Rightarrow>
                        (\<lparr>http_status = 200,
                          http_body = Created (timelineId inputs) (the (timelineName b)) branchId
                                   branchHost (truthy branchId)\<rparr>,
                         copy_to_branch fails (timelineId inputs) branchHost
                           (row\<lparr>created_at := now_branch inputs\<rparr>)
                           (s2\<lparr>main_cluster := table\<rparr>)))"

text \<open>Stores, rows and requests for the closed instances below.\<close>

definition example_row :: timeline_row where
  "example_row =
     \<lparr>session_id = ''session-1'', name = ''First timeline'', parent_timeline_id = None,
      branch_id = Some ''bran-1'', branch_host = Some ''branch-1.tidb.example'',
      tree_data = example_tree, branched_from_node = None, created_at = 1700000000\<rparr>"

definition branched_stores :: stores where
  "branched_stores =
     \<lparr>main_cluster = [''t1'' \<mapsto> example_row],
      branches = (\<lambda>host. if host = ''branch-1.tidb.example''
                           then [''t1'' \<mapsto> example_row\<lparr>tree_data := duplicate_id_tree\<rparr>]
                           else Map.empty),
      trace = []\<rparr>"

definition empty_branch_stores :: stores where
  "empty_branch_stores =
     \<lparr>main_cluster = [''t1'' \<mapsto> example_row], branches = (\<lambda>host. Map.empty), trace = []\<rparr>"

definition no_faults :: "db_call \<Rightarrow> bool" where
  "no_faults call = False"

definition branch_down :: "db_call \<Rightarrow> bool" where
  "branch_down call = (case call of BranchConnect host \<Rightarrow> True | _ \<Rightarrow> False)"

definition main_update_down :: "db_call \<Rightarrow> bool" where
  "main_update_down call = (call = MainUpdate)"

text \<open>
  For the order of the calls: a branch call is one made on a branch connection, a main
  write the \<^verbatim>\<open>UPDATE\<close> or \<^verbatim>\<open>INSERT\<close> on the main cluster. \<open>branch_after_main_write w evs\<close>
  reads a log from the left and holds when every branch call in it comes after a main
  write that succeeded (\<open>w\<close>: one has succeeded before the log starts).
\<close>

fun is_branch_call :: "db_call \<Rightarrow> bool" where
  "is_branch_call (BranchConnect host) = True"
| "is_branch_call (BranchSelect host) = True"
| "is_branch_call (BranchUpdate host) = True"
| "is_branch_call (BranchUpsert host) = True"
| "is_branch_call call = False"

fun is_main_write :: "db_call \<Rightarrow> bool" where
  "is_main_write MainUpdate = True"
| "is_main_write MainInsert = True"
| "is_main_write call = False"

fun branch_after_main_write :: "bool \<Rightarrow> db_event list \<Rightarrow> bool" where
  "branch_after_main_write written [] = True"
| "branch_after_main_write written ((call, ok) # evs) =
     (if is_branch_call call then written \<and> branch_after_main_write written evs
      else if is_main_write call \<and> ok then branch_after_main_write True evs
      else branch_after_main_write written evs)"

definition branch_calls :: "db_event list \<Rightarrow> db_event list" where
  "branch_calls evs = filter (\<lambda>ev. is_branch_call (fst ev)) evs"

definition plain_row :: timeline_row where
  "plain_row = example_row\<lparr>branch_id := None, branch_host := None\<rparr>"

definition plain_stores :: stores where
  "plain_stores =
     \<lparr>main_cluster = [''t1'' \<mapsto> plain_row], branches = (\<lambda>host. Map.empty), trace = []\<rparr>"

text \<open>
  A control plane that asks for no credentials and answers every request with 200 and
  a body that names the branch \<open>bran-2\<close> and the host \<open>branch-2.tidb.example\<close>; a creation
  request that asks for a branch; and stores in which the branch at that host already
  holds a row under the new key.
\<close>

definition open_server :: "http_request \<Rightarrow> http_response option" where
  "open_server request =
     Some \<lparr>status = 200, www_authenticate = None,
           response_json =
             Some \<lparr>branchId_field = Str ''bran-2'', name_field = Undefined,
                   endpoints_0_host = Str ''branch-2.tidb.example''\<rparr>\<rparr>"

definition example_inputs :: create_inputs where
  "example_inputs =
     \<lparr>timelineId = ''0123456789abcdef'', cnonce_create = ''c1'', cnonce_details = ''c2'',
      now_main = 1700000100, now_branch = 1700000101\<rparr>"

definition example_create :: create_body where
  "example_create =
     \<lparr>sessionId = Some ''session-1'', timelineName = Some ''Alt: Path A...'',
      treeData = Some duplicate_id_tree, parentTimelineId = None,
      branchedFromNode = Some ''option-a'', createBranch = True\<rparr>"

definition created_row :: timeline_row where
  "created_row =
     \<lparr>session_id = ''session-1'', name = ''Alt: Path A...'', parent_timeline_id = None,
      branch_id = Some ''bran-2'', branch_host = Some ''branch-2.tidb.example'',
      tree_data = duplicate_id_tree, branched_from_node = Some ''option-a'',
      created_at = 1700000100\<rparr>"

definition stale_branch_stores :: stores where
  "stale_branch_stores =
     \<lparr>main_cluster = [''t1'' \<mapsto> example_row],
      branches = (\<lambda>host. [''0123456789abcdef'' \<mapsto> plain_row]),
      trace = []\<rparr>"

section \<open>Properties of the tree operations\<close>

lemma with_children_sel [simp]:
  "node_id (with_children tree cs) = node_id tree"
  "title (with_children tree cs) = title tree"
  "description (with_children tree cs) = description tree"
  "timeframe (with_children tree cs) = timeframe tree"
  "sentiment (with_children tree cs) = sentiment tree"
  "probability (with_children tree cs) = probability tree"
  "children (with_children tree cs) = Some cs"
  by (simp_all add: with_children_def)

lemma with_children_same: "children tree = Some cs \<Longrightarrow> with_children tree cs = tree"
  by (cases tree) (simp add: with_children_def)

lemma with_children_twice [simp]:
  "with_children (with_children tree cs) ds = with_children tree ds"
  by (simp add: with_children_def)

lemma node_ids_unfold:
  "node_ids tree =
     node_id tree # (case children tree of Some cs \<Rightarrow> concat (map node_ids cs) | None \<Rightarrow> [])"
proof -
  have "node_ids tree = map node_id (preorder tree)"
    by (simp add: node_ids_def)
  also have "\<dots> = node_id tree #
      (case children tree of Some cs \<Rightarrow> concat (map node_ids cs) | None \<Rightarrow> [])"
    by (subst preorder.simps)
       (simp add: node_ids_def [abs_def] map_concat comp_def split: option.split)
  finally show ?thesis .
qed

lemma set_node_ids:
  "set (node_ids tree) =
     insert (node_id tree)
       (case children tree of
          Some cs \<Rightarrow> (\<Union>m \<in> set cs. set (node_ids m))
        | None \<Rightarrow> {})"
  by (subst node_ids_unfold) (auto split: option.split)

text \<open>Where the identifier does not occur, the replacement rebuilds the same tree.\<close>

lemma replace_absent:
  "nodeId \<notin> set (node_ids tree) \<Longrightarrow> replaceSubtreeAtNode tree nodeId newChildren = tree"
proof (induction tree nodeId newChildren rule: replaceSubtreeAtNode.induct)
  case (1 tree nodeId newChildren)
  from "1.prems" have ne: "node_id tree \<noteq> nodeId"
    by (auto simp: set_node_ids)
  show ?case
  proof (cases "children tree")
    case None
    with ne show ?thesis
      by (simp add: replaceSubtreeAtNode.simps)
  next
    case (Some cs)
    have "map (\<lambda>child. replaceSubtreeAtNode child nodeId newChildren) cs = cs"
    proof (rule map_idI)
      fix child
      assume mem: "child \<in> set cs"
      with "1.prems" Some have "nodeId \<notin> set (node_ids child)"
        by (auto simp: set_node_ids)
      with "1.IH" [OF ne Some mem]
      show "replaceSubtreeAtNode child nodeId newChildren = child" .
    qed
    with ne Some show ?thesis
      by (simp add: replaceSubtreeAtNode.simps with_children_same)
  qed
qed

text \<open>\<open>findNodeById\<close> is the first node in document order that carries the identifier.\<close>

lemma find_app:
  "List.find P (xs @ ys) = (case List.find P xs of Some x \<Rightarrow> Some x | None \<Rightarrow> List.find P ys)"
  by (induction xs) auto

lemma findNodeById_first_match:
  "findNodeById tree i = List.find (\<lambda>m. node_id m = i) (preorder tree)"
  "findNodeById_loop cs i = List.find (\<lambda>m. node_id m = i) (concat (map preorder cs))"
proof (induction tree i and cs i rule: findNodeById_findNodeById_loop.induct)
  case (1 tree i)
  show ?case
  proof (cases "node_id tree = i")
    case True
    then show ?thesis
      by (subst preorder.simps) (simp add: findNodeById.simps)
  next
    case False
    then show ?thesis
      using "1.IH" by (subst preorder.simps) (simp add: findNodeById.simps split: option.split)
  qed
next
  case (2 i)
  show ?case by simp
next
  case (3 child rest i)
  show ?case
  proof (cases "findNodeById child i")
    case None
    with "3.IH" show ?thesis by (simp add: find_app)
  next
    case (Some found)
    with "3.IH"(1) have "List.find (\<lambda>m. node_id m = i) (preorder child) = Some found"
      by simp
    with Some show ?thesis by (simp add: find_app)
  qed
qed

lemma findNodeById_None_iff: "findNodeById tree i = None \<longleftrightarrow> i \<notin> set (node_ids tree)"
  by (auto simp: findNodeById_first_match find_None_iff node_ids_def)

lemma findNodeById_loop_append:
  assumes "\<forall>m \<in> set left. i \<notin> set (node_ids m)"
  shows "findNodeById_loop (left @ rest) i = findNodeById_loop rest i"
  using assms by (induction left) (simp_all add: findNodeById_None_iff [symmetric])

text \<open>A node that carries the identifier, plugged into a context with no earlier
  occurrence, is what the search returns.\<close>

lemma findNodeById_plug:
  assumes "node_id n = i" and "i \<notin> set (ctx_ids_before c)"
  shows "findNodeById (plug c n) i = Some n"
  using assms
proof (induction c)
  case Top
  then show ?case by (simp add: findNodeById.simps)
next
  case (Child parent left c right)
  from Child.prems have ne: "node_id parent \<noteq> i"
    and left: "\<forall>m \<in> set left. i \<notin> set (node_ids m)"
    and inner: "i \<notin> set (ctx_ids_before c)"
    by auto
  have "findNodeById (plug (Child parent left c right) n) i =
        findNodeById_loop (left @ plug c n # right) i"
    using ne by (simp add: findNodeById.simps)
  also have "\<dots> = findNodeById_loop (plug c n # right) i"
    using left by (rule findNodeById_loop_append)
  also have "\<dots> = Some n"
    using Child.IH [OF Child.prems(1) inner] by simp
  finally show ?case .
qed

text \<open>The replacement goes down the path to such a node, rewrites it, and maps itself
  over every subtree beside the path.\<close>

lemma replace_plug:
  assumes "node_id n = i" and "i \<notin> set (ctx_ids_before c)"
  shows "replaceSubtreeAtNode (plug c n) i newChildren =
         plug (map_siblings (\<lambda>m. replaceSubtreeAtNode m i newChildren) c)
           (with_children n newChildren)"
  using assms
proof (induction c)
  case Top
  then show ?case by (simp add: replaceSubtreeAtNode.simps)
next
  case (Child parent left c right)
  from Child.prems have ne: "node_id parent \<noteq> i" and inner: "i \<notin> set (ctx_ids_before c)"
    by auto
  show ?case
    using ne Child.IH [OF Child.prems(1) inner]
    by (subst replaceSubtreeAtNode.simps) simp
qed

lemma map_siblings_cong:
  "(\<And>m. f m = g m) \<Longrightarrow> map_siblings f c = map_siblings g c"
  by (induction c) simp_all

lemma ctx_ids_before_map_siblings:
  assumes "i \<notin> set (ctx_ids_before c)"
  shows "i \<notin> set (ctx_ids_before (map_siblings (\<lambda>m. replaceSubtreeAtNode m i newChildren) c))"
  using assms
proof (induction c)
  case Top
  then show ?case by simp
next
  case (Child parent left c right)
  from Child.prems have left: "\<forall>m \<in> set left. i \<notin> set (node_ids m)"
    by auto
  then have "map (\<lambda>m. replaceSubtreeAtNode m i newChildren) left = left"
    by (intro map_idI) (simp add: replace_absent)
  with Child show ?case by simp
qed

text \<open>Every tree that holds the identifier splits at its first occurrence.\<close>

lemma first_occurrence_split:
  "i \<in> set (node_ids tree) \<Longrightarrow>
     \<exists>c n. tree = plug c n \<and> node_id n = i \<and> i \<notin> set (ctx_ids_before c)"
proof (induction tree rule: preorder.induct)
  case (1 tree)
  show ?case
  proof (cases "node_id tree = i")
    case True
    then have "tree = plug Top tree \<and> node_id tree = i \<and> i \<notin> set (ctx_ids_before Top)"
      by simp
    then show ?thesis by blast
  next
    case False
    with "1.prems" obtain cs where cs: "children tree = Some cs"
      and ex: "\<exists>m \<in> set cs. i \<in> set (node_ids m)"
      by (cases "children tree") (auto simp: set_node_ids)
    from split_list_first_prop [OF ex] obtain left m right where split: "cs = left @ m # right"
      and m: "i \<in> set (node_ids m)" and left: "\<forall>l \<in> set left. i \<notin> set (node_ids l)"
      by blast
    from split have "m \<in> set cs" by simp
    from "1.IH" [OF cs this m] obtain c n where
      c: "m = plug c n" "node_id n = i" "i \<notin> set (ctx_ids_before c)"
      by blast
    have "tree = plug (Child tree left c right) n"
      using cs split c(1) by (simp add: with_children_same)
    moreover have "i \<notin> set (ctx_ids_before (Child tree left c right))"
      using False left c(3) by auto
    ultimately show ?thesis using c(2) by blast
  qed
qed

subsection \<open>The function on the heap\<close>

lemma cell_at_append: "cell_at h r = Some c \<Longrightarrow> cell_at (h @ ext) r = Some c"
  by (auto simp: cell_at_def nth_append split: if_splits)

lemma cell_at_alloc [simp]: "cell_at (h @ [c]) (length h) = Some c"
  by (simp add: cell_at_def)

text \<open>The function only allocates: the heap it returns is the heap it got, extended.\<close>

lemma replace_heap_extends:
  "replaceSubtreeAtNode_heap depth h tree i nc = Some (r', h') \<Longrightarrow> \<exists>ext. h' = h @ ext"
  "map_replace_heap depth h rs i nc = Some (rs', h') \<Longrightarrow> \<exists>ext. h' = h @ ext"
proof (induction depth h tree i nc and depth h rs i nc arbitrary: r' h' and rs' h'
    rule: replaceSubtreeAtNode_heap_map_replace_heap.induct)
  case (1 h tree nodeId newChildren)
  then show ?case by simp
next
  case (2 depth h tree nodeId newChildren)
  from "2.prems" show ?case
    by (auto simp: alloc_def split: option.splits cell.splits if_splits prod.splits
        dest!: "2.IH")
next
  case (3 depth h nodeId newChildren)
  then show ?case by simp
next
  case (4 depth h child rest nodeId newChildren)
  from "4.prems" obtain child' h1 rest' where
    first: "replaceSubtreeAtNode_heap depth h child nodeId newChildren = Some (child', h1)"
    and others: "map_replace_heap depth h1 rest nodeId newChildren = Some (rest', h')"
    by (auto split: option.splits prod.splits)
  from "4.IH"(1) [OF first] obtain ext1 where "h1 = h @ ext1"
    by blast
  moreover from "4.IH"(2) [OF first refl others] obtain ext2 where "h' = h1 @ ext2"
    by blast
  ultimately show ?case by simp
qed

text \<open>Reading a tree is stable: more heap and more depth read the same tree.\<close>

lemma tree_at_SucE:
  assumes "tree_at (Suc depth) h r = Some t"
  obtains
    (leaf) i ti d tf s p where "cell_at h r = Some (NodeObject i ti d tf s p None)"
      and "t = LifeNodeData i ti d tf s p None"
  | (inner) i ti d tf s p array elements cs where
      "cell_at h r = Some (NodeObject i ti d tf s p (Some array))"
      and "cell_at h array = Some (ArrayObject elements)"
      and "trees_at depth h elements = Some cs"
      and "t = LifeNodeData i ti d tf s p (Some cs)"
  using assms by (auto split: option.splits cell.splits)

lemma tree_at_leaf:
  "cell_at h r = Some (NodeObject i ti d tf s p None) \<Longrightarrow>
     tree_at (Suc depth) h r = Some (LifeNodeData i ti d tf s p None)"
  by simp

lemma tree_at_inner:
  "cell_at h r = Some (NodeObject i ti d tf s p (Some array)) \<Longrightarrow>
   cell_at h array = Some (ArrayObject elements) \<Longrightarrow>
   trees_at depth h elements = Some cs \<Longrightarrow>
     tree_at (Suc depth) h r = Some (LifeNodeData i ti d tf s p (Some cs))"
  by simp

lemma trees_at_Cons_iff:
  "trees_at depth h (r # rs) = Some ts \<longleftrightarrow>
     (\<exists>t ts'. tree_at depth h r = Some t \<and> trees_at depth h rs = Some ts' \<and> ts = t # ts')"
  by (auto split: option.splits)

lemma trees_at_lift:
  assumes "trees_at depth h rs = Some ts"
    and "\<And>r t. tree_at depth h r = Some t \<Longrightarrow> tree_at depth' h' r = Some t"
  shows "trees_at depth' h' rs = Some ts"
  using assms(1)
proof (induction rs arbitrary: ts)
  case Nil
  then show ?case by simp
next
  case (Cons r rs)
  from Cons.prems [unfolded trees_at_Cons_iff] obtain t ts' where
    t: "tree_at depth h r = Some t"
    and ts': "trees_at depth h rs = Some ts'" and ts: "ts = t # ts'"
    by blast
  from assms(2) [OF t] Cons.IH [OF ts'] show ?case
    unfolding trees_at_Cons_iff ts by blast
qed

lemma tree_at_mono:
  "tree_at depth h r = Some t \<Longrightarrow> tree_at (depth + extra) (h @ ext) r = Some t"
proof (induction depth arbitrary: r t)
  case 0
  then show ?case by simp
next
  case (Suc depth)
  from Suc.prems show ?case
  proof (cases rule: tree_at_SucE)
    case (leaf i ti d tf s p)
    then show ?thesis
      using tree_at_leaf [OF cell_at_append, of h r] by simp
  next
    case (inner i ti d tf s p array elements cs)
    have "trees_at (depth + extra) (h @ ext) elements = Some cs"
      using inner(3) Suc.IH by (rule trees_at_lift)
    with inner show ?thesis
      using tree_at_inner [OF cell_at_append cell_at_append, of h r _ _ _ _ _ _ array]
      by simp
  qed
qed

lemma trees_at_mono:
  "trees_at depth h rs = Some ts \<Longrightarrow> trees_at (depth + extra) (h @ ext) rs = Some ts"
  by (erule trees_at_lift) (rule tree_at_mono)

lemma tree_at_append:
  "tree_at depth h r = Some t \<Longrightarrow> tree_at depth (h @ ext) r = Some t"
  using tree_at_mono [of depth h r t 0 ext] by simp

lemma trees_at_append:
  "trees_at depth h rs = Some ts \<Longrightarrow> trees_at depth (h @ ext) rs = Some ts"
  using trees_at_mono [of depth h rs ts 0 ext] by simp

text \<open>
  The function on the heap computes the function on values: run on a reference that
  holds a tree, with the depth the tree was read with and with an array that holds the
  new children, it returns a reference that holds the tree \<open>replaceSubtreeAtNode\<close>
  returns, in a heap that extends the old one.
\<close>

lemma map_replace_heap_refines:
  assumes step: "\<And>h r t. cell_at h nc = Some (ArrayObject ncrefs) \<Longrightarrow>
      trees_at k h ncrefs = Some ncs \<Longrightarrow> tree_at depth h r = Some t \<Longrightarrow>
      \<exists>r' ext. replaceSubtreeAtNode_heap depth h r i nc = Some (r', h @ ext) \<and>
        tree_at (depth + Suc k) (h @ ext) r' = Some (replaceSubtreeAtNode t i ncs)"
    and "cell_at h nc = Some (ArrayObject ncrefs)" and "trees_at k h ncrefs = Some ncs"
    and "trees_at depth h rs = Some ts"
  shows "\<exists>mapped ext. map_replace_heap depth h rs i nc = Some (mapped, h @ ext) \<and>
      trees_at (depth + Suc k) (h @ ext) mapped =
        Some (map (\<lambda>c. replaceSubtreeAtNode c i ncs) ts)"
  using assms(2-4)
proof (induction rs arbitrary: h ts)
  case Nil
  then have "map_replace_heap depth h [] i nc = Some ([], h @ [])" and "ts = []"
    by simp_all
  then show ?case
    by (metis list.simps(8) trees_at.simps(1))
next
  case (Cons r rs)
  from Cons.prems(3) [unfolded trees_at_Cons_iff] obtain t ts' where
    t: "tree_at depth h r = Some t"
    and ts': "trees_at depth h rs = Some ts'" and ts: "ts = t # ts'"
    by blast
  from step [OF Cons.prems(1,2) t] obtain r' ext1 where
    first: "replaceSubtreeAtNode_heap depth h r i nc = Some (r', h @ ext1)"
    and r': "tree_at (depth + Suc k) (h @ ext1) r' = Some (replaceSubtreeAtNode t i ncs)"
    by blast
  have "\<exists>mapped ext. map_replace_heap depth (h @ ext1) rs i nc = Some (mapped, (h @ ext1) @ ext) \<and>
      trees_at (depth + Suc k) ((h @ ext1) @ ext) mapped =
        Some (map (\<lambda>c. replaceSubtreeAtNode c i ncs) ts')"
    using Cons.prems(1,2) ts'
    by (intro Cons.IH) (simp_all add: cell_at_append trees_at_append)
  then obtain mapped ext2 where
    others: "map_replace_heap depth (h @ ext1) rs i nc = Some (mapped, h @ ext1 @ ext2)"
    and mapped: "trees_at (depth + Suc k) (h @ ext1 @ ext2) mapped =
      Some (map (\<lambda>c. replaceSubtreeAtNode c i ncs) ts')"
    by auto
  from r' have "tree_at (depth + Suc k) (h @ ext1 @ ext2) r' =
      Some (replaceSubtreeAtNode t i ncs)"
    using tree_at_append [of "depth + Suc k" "h @ ext1" r' _ ext2] by simp
  with mapped have "trees_at (depth + Suc k) (h @ ext1 @ ext2) (r' # mapped) =
      Some (map (\<lambda>c. replaceSubtreeAtNode c i ncs) ts)"
    by (simp add: ts)
  moreover from first others
  have "map_replace_heap depth h (r # rs) i nc = Some (r' # mapped, h @ ext1 @ ext2)"
    by simp
  ultimately show ?case
    by blast
qed

lemma replaceSubtreeAtNode_heap_refines:
  assumes "cell_at h nc = Some (ArrayObject ncrefs)" and "trees_at k h ncrefs = Some ncs"
    and "tree_at depth h r = Some t"
  shows "\<exists>r' ext. replaceSubtreeAtNode_heap depth h r i nc = Some (r', h @ ext) \<and>
      tree_at (depth + Suc k) (h @ ext) r' = Some (replaceSubtreeAtNode t i ncs)"
  using assms
proof (induction depth arbitrary: h r t)
  case 0
  then show ?case by simp
next
  case (Suc depth)
  note nc = Suc.prems(1,2)
  have new_children: "trees_at (depth + Suc k) (h @ ext) ncrefs = Some ncs" for ext
    using trees_at_mono [OF nc(2), of "Suc depth" ext] by (simp add: add.commute)
  have matched: "\<exists>r' ext.
      Some (alloc (NodeObject i' ti d tf s p (Some nc)) h) = Some (r', h @ ext) \<and>
      tree_at (Suc depth + Suc k) (h @ ext) r' = Some (LifeNodeData i' ti d tf s p (Some ncs))"
    for i' ti d tf s p
  proof -
    let ?obj = "NodeObject i' ti d tf s p (Some nc)"
    have "tree_at (Suc (depth + Suc k)) (h @ [?obj]) (length h) =
        Some (LifeNodeData i' ti d tf s p (Some ncs))"
      by (rule tree_at_inner [OF cell_at_alloc cell_at_append [OF nc(1)] new_children])
    then show ?thesis
      by (auto simp: alloc_def)
  qed
  from Suc.prems(3) show ?case
  proof (cases rule: tree_at_SucE)
    case (leaf i' ti d tf s p)
    show ?thesis
    proof (cases "i' = i")
      case True
      with leaf matched [of i' ti d tf s p] show ?thesis
        by (simp add: replaceSubtreeAtNode.simps with_children_def)
    next
      case False
      have "tree_at (Suc depth + Suc k) (h @ []) r = Some t"
        using tree_at_mono [OF Suc.prems(3), of "Suc k" "[]"] by simp
      moreover have "replaceSubtreeAtNode_heap (Suc depth) h r i nc = Some (r, h @ [])"
        using leaf False by simp
      moreover have "replaceSubtreeAtNode t i ncs = t"
        using leaf False by (simp add: replaceSubtreeAtNode.simps)
      ultimately show ?thesis
        by metis
    qed
  next
    case (inner i' ti d tf s p array elements cs)
    show ?thesis
    proof (cases "i' = i")
      case True
      with inner matched [of i' ti d tf s p] show ?thesis
        by (simp add: replaceSubtreeAtNode.simps with_children_def)
    next
      case False
      from map_replace_heap_refines [where i = i, OF Suc.IH nc inner(3)]
      obtain mapped ext where
        loop: "map_replace_heap depth h elements i nc = Some (mapped, h @ ext)"
        and mapped: "trees_at (depth + Suc k) (h @ ext) mapped =
          Some (map (\<lambda>c. replaceSubtreeAtNode c i ncs) cs)"
        by blast
      let ?array = "ArrayObject mapped"
      let ?obj = "NodeObject i' ti d tf s p (Some (length (h @ ext)))"
      let ?h' = "h @ ext @ [?array, ?obj]"
      have run: "replaceSubtreeAtNode_heap (Suc depth) h r i nc =
          Some (Suc (length (h @ ext)), ?h')"
        using inner False loop by (simp add: alloc_def)
      have "cell_at ?h' (Suc (length (h @ ext))) = Some ?obj"
        using cell_at_alloc [of "h @ ext @ [?array]" ?obj] by simp
      moreover have "cell_at ?h' (length (h @ ext)) = Some ?array"
        using cell_at_append [OF cell_at_alloc [of "h @ ext" ?array], of "[?obj]"] by simp
      moreover have "trees_at (depth + Suc k) ?h' mapped =
          Some (map (\<lambda>c. replaceSubtreeAtNode c i ncs) cs)"
        using trees_at_append [OF mapped, of "[?array, ?obj]"] by simp
      ultimately have "tree_at (Suc (depth + Suc k)) ?h' (Suc (length (h @ ext))) =
          Some (LifeNodeData i' ti d tf s p
                  (Some (map (\<lambda>c. replaceSubtreeAtNode c i ncs) cs)))"
        by (rule tree_at_inner)
      moreover have "replaceSubtreeAtNode t i ncs =
          LifeNodeData i' ti d tf s p (Some (map (\<lambda>c. replaceSubtreeAtNode c i ncs) cs))"
        using inner(4) False by (simp add: replaceSubtreeAtNode.simps with_children_def)
      ultimately show ?thesis
        using run by (metis add_Suc)
    qed
  qed
qed

text \<open>
  C7. For every tree and every identifier that occurs nowhere in the tree,
  \<open>replaceSubtreeAtNode\<close> returns a tree equal to its input, node for node and field for
  field. On the heap: given a reference that holds the tree and an array that holds the
  new children, the function returns (it raises nothing and the depth the tree was
  read with is enough), the reference it returns holds a tree equal to the input, and
  the heap it returns is the heap it was given with cells appended, so no object or
  array of the input is changed and the input reference still holds the same tree.
\<close>

theorem replaceSubtree_absent_id_noop:
  assumes "nodeId \<notin> set (node_ids tree)"
  shows "replaceSubtreeAtNode tree nodeId newChildren = tree \<and>
         (\<forall>depth h r nc ncrefs k.
            tree_at depth h r = Some tree \<and> cell_at h nc = Some (ArrayObject ncrefs) \<and>
            trees_at k h ncrefs = Some newChildren \<longrightarrow>
            (\<exists>r' ext.
               replaceSubtreeAtNode_heap depth h r nodeId nc = Some (r', h @ ext) \<and>
               tree_at (depth + Suc k) (h @ ext) r' = Some tree \<and>
               tree_at depth (h @ ext) r = Some tree))"
proof (intro conjI allI impI)
  show same: "replaceSubtreeAtNode tree nodeId newChildren = tree"
    using assms by (rule replace_absent)
  fix depth h r nc ncrefs k
  assume held: "tree_at depth h r = Some tree \<and> cell_at h nc = Some (ArrayObject ncrefs) \<and>
    trees_at k h ncrefs = Some newChildren"
  then obtain r' ext where
    "replaceSubtreeAtNode_heap depth h r nodeId nc = Some (r', h @ ext)"
    and "tree_at (depth + Suc k) (h @ ext) r' =
      Some (replaceSubtreeAtNode tree nodeId newChildren)"
    using replaceSubtreeAtNode_heap_refines [of h nc ncrefs k newChildren depth r tree nodeId]
    by blast
  moreover from held have "tree_at depth (h @ ext) r = Some tree"
    by (simp add: tree_at_append)
  ultimately show "\<exists>r' ext.
      replaceSubtreeAtNode_heap depth h r nodeId nc = Some (r', h @ ext) \<and>
      tree_at (depth + Suc k) (h @ ext) r' = Some tree \<and>
      tree_at depth (h @ ext) r = Some tree"
    using same by auto
qed

theorem replaceSubtree_absent_id_noop_witness:
  "''option-c'' \<notin> set (node_ids example_tree) \<and>
   tree_at 3 example_heap 5 = Some example_tree \<and>
   cell_at example_heap 7 = Some (ArrayObject []) \<and>
   replaceSubtreeAtNode example_tree ''option-c'' [] = example_tree \<and>
   (\<exists>r' ext.
      replaceSubtreeAtNode_heap 3 example_heap 5 ''option-c'' 7 =
        Some (r', example_heap @ ext) \<and>
      tree_at (3 + Suc 0) (example_heap @ ext) r' = Some example_tree \<and>
      tree_at 3 (example_heap @ ext) 5 = Some example_tree)"
proof -
  have absent: "''option-c'' \<notin> set (node_ids example_tree)"
    by code_simp
  have held: "tree_at 3 example_heap 5 = Some example_tree"
    by code_simp
  have array: "cell_at example_heap 7 = Some (ArrayObject [])"
    by code_simp
  have empty: "trees_at 0 example_heap [] = Some []"
    by simp
  from replaceSubtree_absent_id_noop [OF absent, of "[]"] held array empty
  show ?thesis
    using absent by blast
qed

text \<open>
  C8 (as amended). For every tree that holds a node with identifier \<open>i\<close>: the tree splits
  as \<open>plug c n\<close> at the first such node \<open>n\<close> in depth-first document order, which is what
  \<open>findNodeById\<close> returns; after \<open>replaceSubtreeAtNode\<close> the same search returns \<open>n\<close> with
  its children equal to \<open>newChildren\<close> and every other field as before; and the new tree
  is the old one with \<open>n\<close> so rewritten, every subtree beside the path to \<open>n\<close> that does
  not hold \<open>i\<close> left as it was, and every one that holds \<open>i\<close> rewritten by the same
  function. A sibling subtree is unchanged exactly when the replacement finds nothing to
  rewrite in it.
\<close>

theorem replace_then_find:
  assumes "i \<in> set (node_ids tree)"
  shows "\<exists>c n. tree = plug c n \<and> node_id n = i \<and> i \<notin> set (ctx_ids_before c) \<and>
           findNodeById tree i = Some n \<and>
           List.find (\<lambda>m. node_id m = i) (preorder tree) = Some n \<and>
           findNodeById (replaceSubtreeAtNode tree i newChildren) i =
             Some (with_children n newChildren) \<and>
           replaceSubtreeAtNode tree i newChildren =
             plug (map_siblings
                     (\<lambda>m. if i \<in> set (node_ids m)
                          then replaceSubtreeAtNode m i newChildren else m) c)
               (with_children n newChildren)"
proof -
  from first_occurrence_split [OF assms] obtain c n where
    split: "tree = plug c n" and n: "node_id n = i" and before: "i \<notin> set (ctx_ids_before c)"
    by blast
  let ?f = "\<lambda>m. replaceSubtreeAtNode m i newChildren"
  let ?g = "\<lambda>m. if i \<in> set (node_ids m) then replaceSubtreeAtNode m i newChildren else m"
  have found: "findNodeById tree i = Some n"
    unfolding split using n before by (rule findNodeById_plug)
  then have first: "List.find (\<lambda>m. node_id m = i) (preorder tree) = Some n"
    by (simp add: findNodeById_first_match)
  have same: "map_siblings ?g c = map_siblings ?f c"
    by (rule map_siblings_cong) (simp add: replace_absent)
  have replaced: "replaceSubtreeAtNode tree i newChildren =
      plug (map_siblings ?f c) (with_children n newChildren)"
    unfolding split using n before by (rule replace_plug)
  have "findNodeById (plug (map_siblings ?f c) (with_children n newChildren)) i =
      Some (with_children n newChildren)"
  proof (rule findNodeById_plug)
    show "node_id (with_children n newChildren) = i" using n by simp
    show "i \<notin> set (ctx_ids_before (map_siblings ?f c))"
      using before by (rule ctx_ids_before_map_siblings)
  qed
  with replaced have again:
    "findNodeById (replaceSubtreeAtNode tree i newChildren) i =
       Some (with_children n newChildren)"
    by simp
  from replaced same have replaced':
    "replaceSubtreeAtNode tree i newChildren =
       plug (map_siblings ?g c) (with_children n newChildren)"
    by simp
  from split n before found first again replaced' show ?thesis
    by blast
qed

theorem replace_then_find_witness:
  "''option-a'' \<in> set (node_ids example_tree) \<and>
   (\<exists>c n. example_tree = plug c n \<and> node_id n = ''option-a'' \<and>
      ''option-a'' \<notin> set (ctx_ids_before c) \<and>
      findNodeById example_tree ''option-a'' = Some n \<and>
      List.find (\<lambda>m. node_id m = ''option-a'') (preorder example_tree) = Some n \<and>
      findNodeById (replaceSubtreeAtNode example_tree ''option-a'' [leaf ''alt'' ''Other'' Yr3])
          ''option-a'' =
        Some (with_children n [leaf ''alt'' ''Other'' Yr3]) \<and>
      replaceSubtreeAtNode example_tree ''option-a'' [leaf ''alt'' ''Other'' Yr3] =
        plug (map_siblings
                (\<lambda>m. if ''option-a'' \<in> set (node_ids m)
                     then replaceSubtreeAtNode m ''option-a'' [leaf ''alt'' ''Other'' Yr3]
                     else m) c)
          (with_children n [leaf ''alt'' ''Other'' Yr3]))"
proof -
  have mem: "''option-a'' \<in> set (node_ids example_tree)"
    by code_simp
  from mem replace_then_find [OF mem, of "[leaf ''alt'' ''Other'' Yr3]"] show ?thesis
    by (rule conjI)
qed

text \<open>
  C8 as stated fails where a sibling of the first match holds the identifier too. In
  \<open>duplicate_id_tree\<close> the search for \<open>dup\<close> returns the first child, and the replacement
  with no children empties the second child as well, which loses its child \<open>kept\<close>: the
  result is not the tree in which only the first match was rewritten.
\<close>

theorem replace_rewrites_matching_sibling:
  "findNodeById duplicate_id_tree ''dup'' = Some (leaf ''dup'' ''First'' Yr1) \<and>
   replaceSubtreeAtNode duplicate_id_tree ''dup'' [] =
     LifeNodeData ''root'' ''Decision'' [] Now Neutral None
       (Some [LifeNodeData ''dup'' ''First'' [] Yr1 Neutral None (Some []),
              LifeNodeData ''dup'' ''Second'' [] Yr1 Neutral None (Some [])]) \<and>
   replaceSubtreeAtNode duplicate_id_tree ''dup'' [] \<noteq>
     LifeNodeData ''root'' ''Decision'' [] Now Neutral None
       (Some [LifeNodeData ''dup'' ''First'' [] Yr1 Neutral None (Some []),
              LifeNodeData ''dup'' ''Second'' [] Yr1 Neutral None
                (Some [leaf ''kept'' ''Below the second'' Yr5])])"
  by code_simp

section \<open>Properties of the rate limiter\<close>

text \<open>
  C9. For every identifier, configuration and store (the trace of earlier calls), and
  whatever the clock and the random source say, \<open>rateLimit\<close> returns
  \<^verbatim>\<open>{ allowed: true, remaining: 999, resetIn: 0 }\<close> and the store as it was; so the generate
  endpoint's answer never has status 429, and it leaves the store as it was too.
\<close>

theorem rateLimit_disabled:
  "rateLimit identifier config now random store =
     (\<lparr>allowed = True, remaining = 999, resetIn = 0\<rparr>, store) \<and>
   generate_status (fst (generate_POST request steps now random store)) \<noteq> 429 \<and>
   snd (generate_POST request steps now random store) = store"
proof -
  have disabled: "\<And>identifier config. rateLimit identifier config now random store =
      (\<lparr>allowed = True, remaining = 999, resetIn = 0\<rparr>, store)"
    by (simp add: rateLimit_def RATE_LIMIT_DISABLED_def)
  show ?thesis
    by (simp add: disabled generate_POST_def)
qed

section \<open>Properties of the digest handshake\<close>

text \<open>With both keys configured and a 401 that carries a challenge header, the function
  sends the second request and settles to whatever that request gives.\<close>

lemma tidbCloudFetch_on_challenge:
  assumes "TIDB_CLOUD_PUBLIC_KEY env = Some publicKey" and "publicKey \<noteq> []"
    and "TIDB_CLOUD_PRIVATE_KEY env = Some privateKey" and "privateKey \<noteq> []"
    and "fetch (initialRequest method path body) = Some challenge"
    and "status challenge = 401"
    and "www_authenticate challenge = Some wwwAuth" and "wwwAuth \<noteq> []"
  shows "tidbCloudFetch env digest cnonce fetch method path body =
     (case fetch (authenticatedRequest method path body
              (digest_authorization digest publicKey privateKey wwwAuth cnonce method path)) of
        None \<Rightarrow> Inl FetchRejected
      | Some response \<Rightarrow> Inr response,
      [initialRequest method path body,
       authenticatedRequest method path body
         (digest_authorization digest publicKey privateKey wwwAuth cnonce method path)])"
  using assms
  by (simp add: tidbCloudFetch_def truthy_string_def Let_def split: option.split)

lemma tidbCloudFetch_no_header:
  assumes "TIDB_CLOUD_PUBLIC_KEY env = Some publicKey" and "publicKey \<noteq> []"
    and "TIDB_CLOUD_PRIVATE_KEY env = Some privateKey" and "privateKey \<noteq> []"
    and "fetch (initialRequest method path body) = Some challenge"
    and "status challenge = 401"
    and "\<not> truthy_string (www_authenticate challenge)"
  shows "tidbCloudFetch env digest cnonce fetch method path body =
     (Inl NoWWWAuthenticateHeader, [initialRequest method path body])"
  using assms
  by (simp add: tidbCloudFetch_def truthy_string_def Let_def split: option.split)

lemma digest_authorization_spec:
  "digest_authorization hash username password wwwAuth cnonce method uri =
     authHeader username
       (or_default (regex_match ''realm'' wwwAuth) [])
       (or_default (regex_match ''nonce'' wwwAuth) [])
       uri
       (or_default (regex_match ''qop'' wwwAuth) ''auth'')
       ''00000001'' cnonce
       (spec_response hash username password
          (or_default (regex_match ''realm'' wwwAuth) [])
          (or_default (regex_match ''nonce'' wwwAuth) [])
          ''00000001'' cnonce
          (or_default (regex_match ''qop'' wwwAuth) ''auth'')
          method uri)"
  by (simp add: digest_authorization_def Let_def spec_response_def spec_HA1_def spec_HA2_def)

text \<open>
  C6. For every key pair (the user name is the public key, the password the private
  key), method, request URI and client nonce, and for every challenge: the credential
  that \<open>tidbCloudFetch\<close> sends with its second request is the \<^verbatim>\<open>Digest\<close> header whose
  response is the documented formula, \<open>spec_response\<close>, with the realm and the nonce
  the code takes from the challenge, the nonce count \<^verbatim>\<open>00000001\<close>, and the quality
  \<^verbatim>\<open>auth\<close> when the challenge names none.
\<close>

theorem digest_credential_formula:
  assumes "TIDB_CLOUD_PUBLIC_KEY env = Some username" and "username \<noteq> []"
    and "TIDB_CLOUD_PRIVATE_KEY env = Some password" and "password \<noteq> []"
    and "fetch (initialRequest method uri body) = Some challenge"
    and "status challenge = 401"
    and "www_authenticate challenge = Some wwwAuth" and "wwwAuth \<noteq> []"
    and "realm = (case regex_match ''realm'' wwwAuth of Some r \<Rightarrow> r | None \<Rightarrow> [])"
    and "nonce = (case regex_match ''nonce'' wwwAuth of Some n \<Rightarrow> n | None \<Rightarrow> [])"
    and "quality = (case regex_match ''qop'' wwwAuth of Some q \<Rightarrow> q | None \<Rightarrow> ''auth'')"
  shows "\<exists>retry.
           snd (tidbCloudFetch env hash clientNonce fetch method uri body) =
             [initialRequest method uri body, retry] \<and>
           authorization retry =
             Some (authHeader username realm nonce uri quality ''00000001'' clientNonce
                     (spec_response hash username password realm nonce ''00000001''
                        clientNonce quality method uri))"
proof -
  let ?header = "digest_authorization hash username password wwwAuth clientNonce method uri"
  have sent: "snd (tidbCloudFetch env hash clientNonce fetch method uri body) =
      [initialRequest method uri body, authenticatedRequest method uri body ?header]"
    using tidbCloudFetch_on_challenge [where fetch = fetch, OF assms(1-8)] by simp
  have "?header =
      authHeader username realm nonce uri quality ''00000001'' clientNonce
        (spec_response hash username password realm nonce ''00000001'' clientNonce quality
           method uri)"
    using assms(9-11) by (simp add: digest_authorization_spec or_default_def)
  then have "authorization (authenticatedRequest method uri body ?header) =
      Some (authHeader username realm nonce uri quality ''00000001'' clientNonce
        (spec_response hash username password realm nonce ''00000001'' clientNonce quality
           method uri))"
    by (simp add: authenticatedRequest_def)
  with sent show ?thesis by blast
qed

theorem digest_credential_formula_witness:
  "\<exists>retry.
     snd (tidbCloudFetch example_env toy_hash ''c1ient''
            (challenging_server (Some full_challenge)) ''POST''
            ''/v1beta1/clusters/cluster1/branches'' None) =
       [initialRequest ''POST'' ''/v1beta1/clusters/cluster1/branches'' None, retry] \<and>
     authorization retry =
       Some (authHeader ''pub'' ''tidb.cloud'' ''n0nce''
               ''/v1beta1/clusters/cluster1/branches'' ''auth'' ''00000001'' ''c1ient''
               (spec_response toy_hash ''pub'' ''priv'' ''tidb.cloud'' ''n0nce'' ''00000001''
                  ''c1ient'' ''auth'' ''POST'' ''/v1beta1/clusters/cluster1/branches''))"
proof -
  have realm: "''tidb.cloud'' =
      (case regex_match ''realm'' full_challenge of Some r \<Rightarrow> r | None \<Rightarrow> [])"
    by code_simp
  have nonce: "''n0nce'' =
      (case regex_match ''nonce'' full_challenge of Some n \<Rightarrow> n | None \<Rightarrow> [])"
    by code_simp
  have quality: "''auth'' =
      (case regex_match ''qop'' full_challenge of Some q \<Rightarrow> q | None \<Rightarrow> ''auth'')"
    by code_simp
  have nonempty: "full_challenge \<noteq> []"
    by (simp add: full_challenge_def)
  show ?thesis
    by (rule digest_credential_formula [where env = example_env and username = "''pub''"
          and password = "''priv''" and fetch = "challenging_server (Some full_challenge)"
          and challenge =
            "\<lparr>status = 401, www_authenticate = Some full_challenge, response_json = None\<rparr>"
          and wwwAuth = full_challenge, OF _ _ _ _ _ _ _ nonempty realm nonce quality])
       (simp_all add: example_env_def challenging_server_def initialRequest_def)
qed

text \<open>
  C3 (as amended). With the keys configured and a 401 answer: if the answer has no
  \<^verbatim>\<open>WWW-Authenticate\<close> header (or an empty one), the call fails with an error and sends
  nothing more; if it has one, the handshake goes on whatever the header holds. A realm
  or a nonce that the header does not name is the empty string, the credential is
  computed with it, the second request is sent, and the call settles to what that
  request gives.
\<close>

theorem challenge_tokens_default_to_empty:
  assumes "TIDB_CLOUD_PUBLIC_KEY env = Some publicKey" and "publicKey \<noteq> []"
    and "TIDB_CLOUD_PRIVATE_KEY env = Some privateKey" and "privateKey \<noteq> []"
    and "fetch (initialRequest method path body) = Some challenge"
    and "status challenge = 401"
  shows "tidbCloudFetch env digest cnonce fetch method path body =
     (case www_authenticate challenge of
        None \<Rightarrow> (Inl NoWWWAuthenticateHeader, [initialRequest method path body])
      | Some wwwAuth \<Rightarrow>
          if wwwAuth = []
          then (Inl NoWWWAuthenticateHeader, [initialRequest method path body])
          else
            let realm = (case regex_match ''realm'' wwwAuth of Some r \<Rightarrow> r | None \<Rightarrow> []);
                nonce = (case regex_match ''nonce'' wwwAuth of Some n \<Rightarrow> n | None \<Rightarrow> []);
                qop = (case regex_match ''qop'' wwwAuth of Some q \<Rightarrow> q | None \<Rightarrow> ''auth'');
                retry =
                  authenticatedRequest method path body
                    (authHeader publicKey realm nonce path qop ''00000001'' cnonce
                       (digest (digest (publicKey @ '':'' @ realm @ '':'' @ privateKey) @ '':'' @
                             nonce @ '':00000001:'' @ cnonce @ '':'' @ qop @ '':'' @
                             digest (method @ '':'' @ path))))
            in (case fetch retry of
                  None \<Rightarrow> Inl FetchRejected
                | Some response \<Rightarrow> Inr response,
                [initialRequest method path body, retry]))"
proof (cases "truthy_string (www_authenticate challenge)")
  case False
  from tidbCloudFetch_no_header [where fetch = fetch, OF assms False] False
  show ?thesis
    by (simp add: truthy_string_def split: option.splits)
next
  case True
  then obtain wwwAuth where h: "www_authenticate challenge = Some wwwAuth" "wwwAuth \<noteq> []"
    by (auto simp: truthy_string_def split: option.splits)
  have "digest_authorization digest publicKey privateKey wwwAuth cnonce method path =
      (let realm = (case regex_match ''realm'' wwwAuth of Some r \<Rightarrow> r | None \<Rightarrow> []);
           nonce = (case regex_match ''nonce'' wwwAuth of Some n \<Rightarrow> n | None \<Rightarrow> []);
           qop = (case regex_match ''qop'' wwwAuth of Some q \<Rightarrow> q | None \<Rightarrow> ''auth'')
       in authHeader publicKey realm nonce path qop ''00000001'' cnonce
            (digest (digest (publicKey @ '':'' @ realm @ '':'' @ privateKey) @ '':'' @ nonce @
                  '':00000001:'' @ cnonce @ '':'' @ qop @ '':'' @ digest (method @ '':'' @ path))))"
    by (simp add: digest_authorization_def Let_def or_default_def)
  with tidbCloudFetch_on_challenge [where fetch = fetch, OF assms h] h show ?thesis
    by (simp add: Let_def)
qed

theorem challenge_tokens_default_to_empty_witness:
  "tidbCloudFetch example_env toy_hash ''c1ient''
     (challenging_server (Some bare_challenge)) ''GET''
     ''/v1beta1/clusters/cluster1/branches'' None =
   (Inr \<lparr>status = 200, www_authenticate = None, response_json = None\<rparr>,
    [initialRequest ''GET'' ''/v1beta1/clusters/cluster1/branches'' None,
     authenticatedRequest ''GET'' ''/v1beta1/clusters/cluster1/branches'' None
       (authHeader ''pub'' [] [] ''/v1beta1/clusters/cluster1/branches'' ''auth''
          ''00000001'' ''c1ient''
          (toy_hash (toy_hash ''pub::priv'' @ '':'' @ '':00000001:c1ient:auth:'' @
             toy_hash ''GET:/v1beta1/clusters/cluster1/branches'')))])"
proof -
  have realm: "regex_match ''realm'' bare_challenge = None"
    by code_simp
  have nonce: "regex_match ''nonce'' bare_challenge = None"
    by code_simp
  have qop: "regex_match ''qop'' bare_challenge = Some ''auth''"
    by code_simp
  have nonempty: "bare_challenge \<noteq> []"
    by (simp add: bare_challenge_def)
  have "TIDB_CLOUD_PUBLIC_KEY example_env = Some ''pub''"
    and "TIDB_CLOUD_PRIVATE_KEY example_env = Some ''priv''"
    and "challenging_server (Some bare_challenge)
           (initialRequest ''GET'' ''/v1beta1/clusters/cluster1/branches'' None) =
         Some \<lparr>status = 401, www_authenticate = Some bare_challenge, response_json = None\<rparr>"
    by (simp_all add: example_env_def challenging_server_def initialRequest_def)
  from challenge_tokens_default_to_empty [where fetch = "challenging_server (Some bare_challenge)"
      and digest = toy_hash and cnonce = "''c1ient''", OF this(1) _ this(2) _ this(3)]
  show ?thesis
    by (simp add: realm nonce qop nonempty challenging_server_def authenticatedRequest_def)
qed

text \<open>
  C3 as stated fails: a challenge header that names neither a realm nor a nonce does
  not make the call fail. For \<open>bare_challenge\<close>, \<^verbatim>\<open>Digest qop="auth"\<close>, both matches
  are \<^verbatim>\<open>null\<close>; the call still sends a second request, whose header carries
  \<^verbatim>\<open>realm=""\<close> and \<^verbatim>\<open>nonce=""\<close>, and settles to that request's answer, not to an error.
\<close>

theorem missing_tokens_do_not_fail_fast:
  "regex_match ''realm'' bare_challenge = None \<and>
   regex_match ''nonce'' bare_challenge = None \<and>
   fst (tidbCloudFetch example_env toy_hash ''c1ient''
          (challenging_server (Some bare_challenge)) ''GET''
          ''/v1beta1/clusters/cluster1/branches'' None) =
     Inr \<lparr>status = 200, www_authenticate = None, response_json = None\<rparr> \<and>
   map authorization
     (snd (tidbCloudFetch example_env toy_hash ''c1ient''
             (challenging_server (Some bare_challenge)) ''GET''
             ''/v1beta1/clusters/cluster1/branches'' None)) =
     [None,
      Some (authHeader ''pub'' [] [] ''/v1beta1/clusters/cluster1/branches'' ''auth''
              ''00000001'' ''c1ient''
              (toy_hash (toy_hash ''pub::priv'' @ '':'' @ '':00000001:c1ient:auth:'' @
                 toy_hash ''GET:/v1beta1/clusters/cluster1/branches'')))]"
  by code_simp

section \<open>Properties of the timelines store\<close>

lemma record_call_simps [simp]:
  "trace (record_call call ok s) = trace s @ [(call, ok)]"
  "main_cluster (record_call call ok s) = main_cluster s"
  "branches (record_call call ok s) = branches s"
  by (simp_all add: record_call_def)

lemma new_events_app: "trace s' = trace s @ evs \<Longrightarrow> new_events s s' = evs"
  by (simp add: new_events_def)

lemma new_events_same [simp]: "new_events s s = []"
  by (simp add: new_events_def)

text \<open>The read of the branch: what it returns and what it logs.\<close>

lemma read_branch_cases:
  "read_branch fails key timeline s =
     (if \<not> truthy_string (branch_host timeline) then ((tree_data timeline, ''main''), s)
      else if fails (BranchConnect (the (branch_host timeline)))
      then ((tree_data timeline, ''main''),
            s\<lparr>trace := trace s @ [(BranchConnect (the (branch_host timeline)), False)]\<rparr>)
      else if fails (BranchSelect (the (branch_host timeline)))
      then ((tree_data timeline, ''main''),
            s\<lparr>trace := trace s @ [(BranchConnect (the (branch_host timeline)), True),
                                    (BranchSelect (the (branch_host timeline)), False)]\<rparr>)
      else (case branches s (the (branch_host timeline)) key of
              Some branchRow \<Rightarrow> (tree_data branchRow, ''branch'')
            | None \<Rightarrow> (tree_data timeline, ''main''),
            s\<lparr>trace := trace s @ [(BranchConnect (the (branch_host timeline)), True),
                                    (BranchSelect (the (branch_host timeline)), True)]\<rparr>))"
  by (simp add: read_branch_def record_call_def Let_def split: option.split)

text \<open>
  C2. For every read whose query on the main cluster is answered: if the main cluster
  has no row for the identifier, the answer is 404 \<^verbatim>\<open>Timeline not found\<close>. Otherwise the
  answer is 200: with the branch's payload and \<^verbatim>\<open>source: "branch"\<close> if the record names a
  branch host, the connection and the query on the branch do not fail and the branch
  holds the row; with the payload already read from the main cluster and
  \<^verbatim>\<open>source: "main"\<close> if the connection or the query on the branch fails.
\<close>

theorem read_prefers_branch_and_falls_back:
  assumes "GET_timeline fails key s = (response, s')"
    and "(MainSelect, True) \<in> set (new_events s s')"
  shows "(main_cluster s key = None \<longrightarrow>
            response = \<lparr>http_status = 404, http_body = Failure ''Timeline not found''\<rparr>) \<and>
         (\<forall>timeline host branchRow.
            main_cluster s key = Some timeline \<and> branch_host timeline = Some host \<and>
            host \<noteq> [] \<and> \<not> fails (BranchConnect host) \<and> \<not> fails (BranchSelect host) \<and>
            branches s host key = Some branchRow \<longrightarrow>
            response =
              \<lparr>http_status = 200,
               http_body = Timeline key (name timeline) (branch_id timeline)
                 (branch_host timeline) (tree_data branchRow) (branched_from_node timeline)
                 (created_at timeline) ''branch''\<rparr>) \<and>
         (\<forall>timeline host.
            main_cluster s key = Some timeline \<and> branch_host timeline = Some host \<and>
            host \<noteq> [] \<and> (fails (BranchConnect host) \<or> fails (BranchSelect host)) \<longrightarrow>
            response =
              \<lparr>http_status = 200,
               http_body = Timeline key (name timeline) (branch_id timeline)
                 (branch_host timeline) (tree_data timeline) (branched_from_node timeline)
                 (created_at timeline) ''main''\<rparr>)"
  using assms
  by (auto simp: GET_timeline_def read_branch_cases truthy_string_def Let_def new_events_def
      split: if_splits option.splits)

text \<open>
  C10. On a read of a record that names a branch host, if the query on the branch is
  answered and the branch holds no row for the identifier, the answer is 200 with the
  payload of the main cluster and \<^verbatim>\<open>source: "main"\<close>, as after a failed branch read.
\<close>

theorem read_empty_branch_result_falls_back:
  assumes "GET_timeline fails key s = (response, s')"
    and "main_cluster s key = Some timeline"
    and "branch_host timeline = Some host"
    and "(BranchSelect host, True) \<in> set (new_events s s')"
    and "branches s host key = None"
  shows "response =
     \<lparr>http_status = 200,
      http_body = Timeline key (name timeline) (branch_id timeline) (branch_host timeline)
        (tree_data timeline) (branched_from_node timeline) (created_at timeline) ''main''\<rparr>"
  using assms
  by (auto simp: GET_timeline_def read_branch_cases truthy_string_def Let_def new_events_def
      split: if_splits option.splits)

text \<open>The write to the branch in the update: its tag, its log and its effect.\<close>

lemma write_branch_cases:
  "write_branch fails key branchHost payload s =
     (if \<not> truthy_string branchHost then (''main'', s)
      else if fails (BranchConnect (the branchHost))
      then (''main-only'', s\<lparr>trace := trace s @ [(BranchConnect (the branchHost), False)]\<rparr>)
      else if fails (BranchUpdate (the branchHost))
      then (''main-only'',
            s\<lparr>trace := trace s @ [(BranchConnect (the branchHost), True),
                                    (BranchUpdate (the branchHost), False)]\<rparr>)
      else (''both'',
            s\<lparr>trace := trace s @ [(BranchConnect (the branchHost), True),
                                    (BranchUpdate (the branchHost), True)],
              branches := (branches s)
                (the branchHost :=
                   sql_update_tree_data (branches s (the branchHost)) key payload)\<rparr>))"
  by (simp add: write_branch_def record_call_def Let_def)

lemma write_branch_events:
  "new_events s (snd (write_branch fails key branchHost payload s)) =
     (if \<not> truthy_string branchHost then []
      else if fails (BranchConnect (the branchHost))
      then [(BranchConnect (the branchHost), False)]
      else [(BranchConnect (the branchHost), True),
            (BranchUpdate (the branchHost), \<not> fails (BranchUpdate (the branchHost)))])"
  by (simp add: write_branch_cases new_events_def)

lemma write_branch_main_cluster [simp]:
  "main_cluster (snd (write_branch fails key branchHost payload s)) = main_cluster s"
  by (simp add: write_branch_cases)

lemma write_branch_trace:
  "trace (snd (write_branch fails key branchHost payload s)) =
     trace s @ new_events s (snd (write_branch fails key branchHost payload s))"
  by (simp add: write_branch_cases new_events_def)

text \<open>The update, in the case that reaches the write to the main cluster and sees it
  succeed, and the log in the cases that do not.\<close>

lemma PUT_timeline_written:
  assumes "request_json = Some (Some payload)"
    and "\<not> fails PoolGetConnection" and "\<not> fails MainSelect"
    and "main_cluster s key = Some timeline" and "\<not> fails MainUpdate"
  shows "PUT_timeline fails key request_json s =
     (\<lparr>http_status = 200,
       http_body = WrittenTo (fst (write_branch fails key (branch_host timeline) payload
         (s\<lparr>trace := trace s @ [(PoolGetConnection, True), (MainSelect, True),
                                 (MainUpdate, True)],
            main_cluster := (main_cluster s)(key \<mapsto> timeline\<lparr>tree_data := payload\<rparr>)\<rparr>)))\<rparr>,
      snd (write_branch fails key (branch_host timeline) payload
        (s\<lparr>trace := trace s @ [(PoolGetConnection, True), (MainSelect, True),
                                (MainUpdate, True)],
           main_cluster := (main_cluster s)(key \<mapsto> timeline\<lparr>tree_data := payload\<rparr>)\<rparr>)))"
  using assms
  apply (simp add: PUT_timeline_def Let_def split_def)
  apply (simp add: record_call_def sql_update_tree_data_def)
  done

lemma PUT_timeline_written_events:
  assumes "request_json = Some (Some payload)"
    and "\<not> fails PoolGetConnection" and "\<not> fails MainSelect"
    and "main_cluster s key = Some timeline" and "\<not> fails MainUpdate"
  shows "new_events s (snd (PUT_timeline fails key request_json s)) =
     [(PoolGetConnection, True), (MainSelect, True), (MainUpdate, True)] @
     (if \<not> truthy_string (branch_host timeline) then []
      else if fails (BranchConnect (the (branch_host timeline)))
      then [(BranchConnect (the (branch_host timeline)), False)]
      else [(BranchConnect (the (branch_host timeline)), True),
            (BranchUpdate (the (branch_host timeline)),
             \<not> fails (BranchUpdate (the (branch_host timeline))))])"
  by (simp add: PUT_timeline_written [OF assms] write_branch_cases new_events_def)

lemma PUT_timeline_not_written:
  assumes "\<And>payload. request_json = Some (Some payload) \<Longrightarrow>
             fails PoolGetConnection \<or> fails MainSelect \<or> main_cluster s key = None \<or>
             fails MainUpdate"
  shows "(MainUpdate, True) \<notin> set (new_events s (snd (PUT_timeline fails key request_json s)))
         \<and> branch_calls (new_events s (snd (PUT_timeline fails key request_json s))) = []
         \<and> http_status (fst (PUT_timeline fails key request_json s)) \<noteq> 200"
proof (cases request_json)
  case None
  then show ?thesis
    by (simp add: PUT_timeline_def branch_calls_def server_error_def)
next
  case (Some inner)
  show ?thesis
  proof (cases inner)
    case None
    with Some show ?thesis
      by (simp add: PUT_timeline_def branch_calls_def new_events_def)
  next
    case (Some payload)
    with \<open>request_json = Some inner\<close> have rj: "request_json = Some (Some payload)"
      by simp
    from assms [OF rj] consider
        (pool) "fails PoolGetConnection"
      | (select) "\<not> fails PoolGetConnection" "fails MainSelect"
      | (absent) "\<not> fails PoolGetConnection" "\<not> fails MainSelect" "main_cluster s key = None"
      | (update) timeline where "\<not> fails PoolGetConnection" "\<not> fails MainSelect"
          "main_cluster s key = Some timeline" "fails MainUpdate"
      by (cases "main_cluster s key") auto
    then show ?thesis
    proof cases
      case pool
      with rj show ?thesis
        by (simp add: PUT_timeline_def branch_calls_def server_error_def Let_def
            new_events_def)
    next
      case select
      with rj show ?thesis
        by (simp add: PUT_timeline_def branch_calls_def server_error_def Let_def
            new_events_def)
    next
      case absent
      with rj show ?thesis
        by (simp add: PUT_timeline_def branch_calls_def server_error_def Let_def
            new_events_def)
    next
      case update
      with rj show ?thesis
        by (simp add: PUT_timeline_def branch_calls_def server_error_def Let_def
            new_events_def)
    qed
  qed
qed

text \<open>
  C1. For every update whose write to the main cluster succeeds, the answer is 200 with
  one tag: \<^verbatim>\<open>main\<close> when the record names no branch host (null or empty), and then no
  branch call is made; \<^verbatim>\<open>both\<close> when the update on the branch succeeded;
  \<^verbatim>\<open>main-only\<close> when the branch was tried (the connection was asked for) and the
  connection or the update failed. The update on the branch succeeds exactly when
  neither of the two calls fails. The main cluster holds the new payload in every case.
\<close>

theorem update_reports_write_destination:
  assumes "PUT_timeline fails key request_json s = (response, s')"
    and "(MainUpdate, True) \<in> set (new_events s s')"
  shows "\<exists>timeline payload.
           main_cluster s key = Some timeline \<and> request_json = Some (Some payload) \<and>
           main_cluster s' key = Some (timeline\<lparr>tree_data := payload\<rparr>) \<and>
           response =
             \<lparr>http_status = 200,
              http_body = WrittenTo
                (if \<not> truthy_string (branch_host timeline) then ''main''
                 else if (BranchUpdate (the (branch_host timeline)), True)
                          \<in> set (new_events s s')
                 then ''both''
                 else ''main-only'')\<rparr> \<and>
           (if truthy_string (branch_host timeline)
            then (BranchConnect (the (branch_host timeline)),
                  \<not> fails (BranchConnect (the (branch_host timeline))))
                   \<in> set (new_events s s')
            else branch_calls (new_events s s') = []) \<and>
           ((BranchUpdate (the (branch_host timeline)), True) \<in> set (new_events s s') \<longleftrightarrow>
              truthy_string (branch_host timeline) \<and>
              \<not> fails (BranchConnect (the (branch_host timeline))) \<and>
              \<not> fails (BranchUpdate (the (branch_host timeline))))"
proof -
  have reached: "\<exists>payload. request_json = Some (Some payload) \<and> \<not> fails PoolGetConnection \<and>
      \<not> fails MainSelect \<and> main_cluster s key \<noteq> None \<and> \<not> fails MainUpdate"
  proof (rule ccontr)
    assume "\<not> ?thesis"
    then have "(MainUpdate, True) \<notin>
        set (new_events s (snd (PUT_timeline fails key request_json s)))"
      using PUT_timeline_not_written [of request_json fails s key] by blast
    with assms show False
      by simp
  qed
  then obtain payload timeline where rj: "request_json = Some (Some payload)"
    and ok: "\<not> fails PoolGetConnection" "\<not> fails MainSelect" "\<not> fails MainUpdate"
    and row: "main_cluster s key = Some timeline"
    by blast
  define written where "written =
    s\<lparr>trace := trace s @ [(PoolGetConnection, True), (MainSelect, True), (MainUpdate, True)],
      main_cluster := (main_cluster s)(key \<mapsto> timeline\<lparr>tree_data := payload\<rparr>)\<rparr>"
  let ?w = "write_branch fails key (branch_host timeline) payload written"
  from PUT_timeline_written [OF rj ok(1,2) row ok(3), folded written_def] assms(1)
  have response: "response = \<lparr>http_status = 200, http_body = WrittenTo (fst ?w)\<rparr>"
    and s': "s' = snd ?w"
    by simp_all
  have events: "new_events s s' =
      [(PoolGetConnection, True), (MainSelect, True), (MainUpdate, True)] @
      new_events written (snd ?w)"
  proof (rule new_events_app)
    have "trace (snd ?w) = trace written @ new_events written (snd ?w)"
      by (rule write_branch_trace)
    then show "trace s' = trace s @
        [(PoolGetConnection, True), (MainSelect, True), (MainUpdate, True)] @
        new_events written (snd ?w)"
      by (simp add: s' written_def)
  qed
  have main: "main_cluster s' key = Some (timeline\<lparr>tree_data := payload\<rparr>)"
    by (simp add: s' written_def)
  have tag: "fst ?w =
      (if \<not> truthy_string (branch_host timeline) then ''main''
       else if (BranchUpdate (the (branch_host timeline)), True) \<in> set (new_events s s')
       then ''both'' else ''main-only'')"
    by (simp add: events write_branch_events) (simp add: write_branch_cases)
  have tried: "if truthy_string (branch_host timeline)
      then (BranchConnect (the (branch_host timeline)),
            \<not> fails (BranchConnect (the (branch_host timeline)))) \<in> set (new_events s s')
      else branch_calls (new_events s s') = []"
    by (simp add: events write_branch_events branch_calls_def)
  have succeeded: "(BranchUpdate (the (branch_host timeline)), True) \<in> set (new_events s s') \<longleftrightarrow>
      truthy_string (branch_host timeline) \<and>
      \<not> fails (BranchConnect (the (branch_host timeline))) \<and>
      \<not> fails (BranchUpdate (the (branch_host timeline)))"
    by (simp add: events write_branch_events)
  show ?thesis
  proof (intro exI conjI)
    show "main_cluster s key = Some timeline" by (rule row)
    show "request_json = Some (Some payload)" by (rule rj)
    show "main_cluster s' key = Some (timeline\<lparr>tree_data := payload\<rparr>)" by (rule main)
    show "response =
        \<lparr>http_status = 200,
         http_body = WrittenTo
           (if \<not> truthy_string (branch_host timeline) then ''main''
            else if (BranchUpdate (the (branch_host timeline)), True) \<in> set (new_events s s')
            then ''both'' else ''main-only'')\<rparr>"
      unfolding response tag ..
    show "if truthy_string (branch_host timeline)
      then (BranchConnect (the (branch_host timeline)),
            \<not> fails (BranchConnect (the (branch_host timeline)))) \<in> set (new_events s s')
      else branch_calls (new_events s s') = []"
      by (rule tried)
    show "(BranchUpdate (the (branch_host timeline)), True) \<in> set (new_events s s') \<longleftrightarrow>
      truthy_string (branch_host timeline) \<and>
      \<not> fails (BranchConnect (the (branch_host timeline))) \<and>
      \<not> fails (BranchUpdate (the (branch_host timeline)))"
      by (rule succeeded)
  qed
qed

lemma example_lookups [simp]:
  "main_cluster branched_stores ''t1'' = Some example_row"
  "main_cluster branched_stores ''t2'' = None"
  "branches branched_stores ''branch-1.tidb.example'' ''t1'' =
     Some (example_row\<lparr>tree_data := duplicate_id_tree\<rparr>)"
  "main_cluster empty_branch_stores ''t1'' = Some example_row"
  "branches empty_branch_stores host ''t1'' = None"
  "main_cluster plain_stores ''t1'' = Some plain_row"
  "branch_host example_row = Some ''branch-1.tidb.example''"
  "branch_host plain_row = None"
  by (simp_all add: branched_stores_def empty_branch_stores_def plain_stores_def
      example_row_def plain_row_def)

lemma example_faults [simp]:
  "no_faults call = False"
  "branch_down (BranchConnect host) = True"
  "branch_down PoolGetConnection = False"
  "branch_down MainSelect = False"
  "branch_down MainUpdate = False"
  "main_update_down call = (call = MainUpdate)"
  by (simp_all add: no_faults_def branch_down_def main_update_down_def)

theorem read_prefers_branch_and_falls_back_witness:
  "fst (GET_timeline no_faults ''t1'' branched_stores) =
     \<lparr>http_status = 200,
      http_body = Timeline ''t1'' ''First timeline'' (Some ''bran-1'')
        (Some ''branch-1.tidb.example'') duplicate_id_tree None 1700000000 ''branch''\<rparr> \<and>
   fst (GET_timeline branch_down ''t1'' branched_stores) =
     \<lparr>http_status = 200,
      http_body = Timeline ''t1'' ''First timeline'' (Some ''bran-1'')
        (Some ''branch-1.tidb.example'') example_tree None 1700000000 ''main''\<rparr> \<and>
   fst (GET_timeline no_faults ''t2'' branched_stores) =
     \<lparr>http_status = 404, http_body = Failure ''Timeline not found''\<rparr>"
proof -
  have answered: "(MainSelect, True) \<in>
      set (new_events branched_stores (snd (GET_timeline fails key branched_stores)))"
    if "\<not> fails PoolGetConnection" and "\<not> fails MainSelect" for fails key
    using that
    by (simp add: GET_timeline_def read_branch_cases Let_def new_events_def split_def
        split: option.split)
  have from_branch: "fst (GET_timeline no_faults ''t1'' branched_stores) =
      \<lparr>http_status = 200,
       http_body = Timeline ''t1'' (name example_row) (branch_id example_row)
         (branch_host example_row) (tree_data (example_row\<lparr>tree_data := duplicate_id_tree\<rparr>))
         (branched_from_node example_row) (created_at example_row) ''branch''\<rparr>"
    using read_prefers_branch_and_falls_back
      [OF prod.collapse [symmetric] answered, of no_faults "''t1''"]
    by simp
  have from_main: "fst (GET_timeline branch_down ''t1'' branched_stores) =
      \<lparr>http_status = 200,
       http_body = Timeline ''t1'' (name example_row) (branch_id example_row)
         (branch_host example_row) (tree_data example_row)
         (branched_from_node example_row) (created_at example_row) ''main''\<rparr>"
    using read_prefers_branch_and_falls_back
      [OF prod.collapse [symmetric] answered, of branch_down "''t1''"]
    by simp
  have not_found: "fst (GET_timeline no_faults ''t2'' branched_stores) =
      \<lparr>http_status = 404, http_body = Failure ''Timeline not found''\<rparr>"
    using read_prefers_branch_and_falls_back
      [OF prod.collapse [symmetric] answered, of no_faults "''t2''"]
    by simp
  from from_branch from_main not_found show ?thesis
    by (simp add: example_row_def)
qed

theorem read_empty_branch_result_falls_back_witness:
  "fst (GET_timeline no_faults ''t1'' empty_branch_stores) =
     \<lparr>http_status = 200,
      http_body = Timeline ''t1'' ''First timeline'' (Some ''bran-1'')
        (Some ''branch-1.tidb.example'') example_tree None 1700000000 ''main''\<rparr>"
proof -
  have answered: "(BranchSelect ''branch-1.tidb.example'', True) \<in>
      set (new_events empty_branch_stores
             (snd (GET_timeline no_faults ''t1'' empty_branch_stores)))"
    by (simp add: GET_timeline_def read_branch_cases Let_def new_events_def split_def
        truthy_string_def)
  from read_empty_branch_result_falls_back
    [OF prod.collapse [symmetric] _ _ answered, of example_row]
  show ?thesis
    by (simp add: example_row_def)
qed

theorem update_reports_write_destination_witness:
  "fst (PUT_timeline no_faults ''t1'' (Some (Some duplicate_id_tree)) branched_stores) =
     \<lparr>http_status = 200, http_body = WrittenTo ''both''\<rparr> \<and>
   fst (PUT_timeline branch_down ''t1'' (Some (Some duplicate_id_tree)) branched_stores) =
     \<lparr>http_status = 200, http_body = WrittenTo ''main-only''\<rparr> \<and>
   fst (PUT_timeline no_faults ''t1'' (Some (Some duplicate_id_tree)) plain_stores) =
     \<lparr>http_status = 200, http_body = WrittenTo ''main''\<rparr>"
proof -
  have written: "(MainUpdate, True) \<in>
      set (new_events s (snd (PUT_timeline fails ''t1'' (Some (Some duplicate_id_tree)) s)))"
    if "\<not> fails PoolGetConnection" and "\<not> fails MainSelect" and "\<not> fails MainUpdate"
      and "main_cluster s ''t1'' = Some row" for fails s row
    by (simp add: PUT_timeline_written_events [OF refl that(1,2,4,3)])
  from update_reports_write_destination
    [OF prod.collapse [symmetric] written [of no_faults branched_stores example_row]]
  have both: "fst (PUT_timeline no_faults ''t1'' (Some (Some duplicate_id_tree)) branched_stores) =
      \<lparr>http_status = 200, http_body = WrittenTo ''both''\<rparr>"
    by (auto simp: truthy_string_def)
  from update_reports_write_destination
    [OF prod.collapse [symmetric] written [of branch_down branched_stores example_row]]
  have main_only:
    "fst (PUT_timeline branch_down ''t1'' (Some (Some duplicate_id_tree)) branched_stores) =
      \<lparr>http_status = 200, http_body = WrittenTo ''main-only''\<rparr>"
    by (auto simp: truthy_string_def)
  from update_reports_write_destination
    [OF prod.collapse [symmetric] written [of no_faults plain_stores plain_row]]
  have main: "fst (PUT_timeline no_faults ''t1'' (Some (Some duplicate_id_tree)) plain_stores) =
      \<lparr>http_status = 200, http_body = WrittenTo ''main''\<rparr>"
    by (auto simp: truthy_string_def)
  from both main_only main show ?thesis
    by simp
qed

text \<open>The creation: the copy to the branch, and the handler case by case.\<close>

lemma copy_to_branch_cases:
  "copy_to_branch fails key branchHost row s =
     (if \<not> truthy branchHost then s
      else if fails (BranchConnect (js_string branchHost))
      then s\<lparr>trace := trace s @ [(BranchConnect (js_string branchHost), False)]\<rparr>
      else if fails (BranchUpsert (js_string branchHost))
      then s\<lparr>trace := trace s @ [(BranchConnect (js_string branchHost), True),
                                   (BranchUpsert (js_string branchHost), False)]\<rparr>
      else s\<lparr>trace := trace s @ [(BranchConnect (js_string branchHost), True),
                                   (BranchUpsert (js_string branchHost), True)],
             branches := (branches s)
               (js_string branchHost :=
                  sql_insert_on_duplicate_key_update_tree_data
                    (branches s (js_string branchHost)) key row)\<rparr>)"
  by (simp add: copy_to_branch_def record_call_def Let_def)

lemma POST_timelines_rejected:
  assumes "\<And>b. request_json = Some b \<Longrightarrow>
      \<not> (truthy_string (sessionId b) \<and> truthy_string (timelineName b) \<and> treeData b \<noteq> None)"
  shows "snd (POST_timelines fails env md5 fetch inputs request_json s) = s"
  using assms
  by (cases request_json) (simp_all add: POST_timelines_def)

lemma POST_timelines_pool_down:
  assumes "request_json = Some b"
    and "truthy_string (sessionId b)" and "truthy_string (timelineName b)"
    and "treeData b \<noteq> None"
    and "fails PoolGetConnection"
  shows "POST_timelines fails env md5 fetch inputs request_json s =
     (server_error ''Failed to create timeline'',
      s\<lparr>trace := trace s @ [(PoolGetConnection, False)]\<rparr>)"
  using assms
  by (simp add: POST_timelines_def record_call_def Let_def split_def)

lemma POST_timelines_insert_failed:
  assumes "request_json = Some b"
    and "truthy_string (sessionId b)" and "truthy_string (timelineName b)"
    and "treeData b \<noteq> None"
    and "\<not> fails PoolGetConnection"
    and "provisioned =
           (if createBranch b then createTidbBranch env md5 fetch inputs else (Null, Null))"
    and "fails MainInsert \<or> fst provisioned = Undefined \<or> snd provisioned = Undefined \<or>
         main_cluster s (timelineId inputs) \<noteq> None"
  shows "POST_timelines fails env md5 fetch inputs request_json s =
     (server_error ''Failed to create timeline'',
      s\<lparr>trace := trace s @ [(PoolGetConnection, True), (MainInsert, False)]\<rparr>)"
  using assms(1-5,7) unfolding assms(6)
  by (auto simp: POST_timelines_def record_call_def Let_def split_def sql_insert_def)

lemma POST_timelines_inserted:
  assumes "request_json = Some b"
    and "truthy_string (sessionId b)" and "truthy_string (timelineName b)"
    and "treeData b \<noteq> None"
    and "\<not> fails PoolGetConnection"
    and "provisioned =
           (if createBranch b then createTidbBranch env md5 fetch inputs else (Null, Null))"
    and "\<not> fails MainInsert" and "fst provisioned \<noteq> Undefined"
    and "snd provisioned \<noteq> Undefined" and "main_cluster s (timelineId inputs) = None"
    and "row =
           \<lparr>session_id = the (sessionId b), name = the (timelineName b),
            parent_timeline_id = or_null (parentTimelineId b),
            branch_id = sql_value (fst provisioned),
            branch_host = sql_value (snd provisioned),
            tree_data = the (treeData b),
            branched_from_node = or_null (branchedFromNode b),
            created_at = now_main inputs\<rparr>"
  shows "POST_timelines fails env md5 fetch inputs request_json s =
     (\<lparr>http_status = 200,
       http_body = Created (timelineId inputs) (the (timelineName b)) (fst provisioned)
         (snd provisioned) (truthy (fst provisioned))\<rparr>,
      copy_to_branch fails (timelineId inputs) (snd provisioned)
        (row\<lparr>created_at := now_branch inputs\<rparr>)
        (s\<lparr>trace := trace s @ [(PoolGetConnection, True), (MainInsert, True)],
           main_cluster := (main_cluster s)(timelineId inputs \<mapsto> row)\<rparr>))"
  using assms(1-5,7-10) unfolding assms(6) assms(11)
  by (auto simp: POST_timelines_def record_call_def Let_def split_def sql_insert_def)

text \<open>The status and the log of an update and of a creation, in every case.\<close>

lemma PUT_timeline_run:
  "(http_status (fst (PUT_timeline fails key request_json s)),
    new_events s (snd (PUT_timeline fails key request_json s))) =
     (case request_json of
        None \<Rightarrow> (500, [])
      | Some None \<Rightarrow> (400, [])
      | Some (Some payload) \<Rightarrow>
          if fails PoolGetConnection then (500, [(PoolGetConnection, False)])
          else if fails MainSelect
          then (500, [(PoolGetConnection, True), (MainSelect, False)])
          else case main_cluster s key of
                 None \<Rightarrow> (404, [(PoolGetConnection, True), (MainSelect, True)])
               | Some timeline \<Rightarrow>
                   if fails MainUpdate
                   then (500, [(PoolGetConnection, True), (MainSelect, True),
                               (MainUpdate, False)])
                   else (200,
                         [(PoolGetConnection, True), (MainSelect, True), (MainUpdate, True)] @
                         (if \<not> truthy_string (branch_host timeline) then []
                          else if fails (BranchConnect (the (branch_host timeline)))
                          then [(BranchConnect (the (branch_host timeline)), False)]
                          else [(BranchConnect (the (branch_host timeline)), True),
                                (BranchUpdate (the (branch_host timeline)),
                                 \<not> fails (BranchUpdate (the (branch_host timeline))))])))"
proof (cases request_json)
  case None
  then show ?thesis
    by (simp add: PUT_timeline_def server_error_def new_events_def)
next
  case (Some inner)
  show ?thesis
  proof (cases inner)
    case None
    with Some show ?thesis
      by (simp add: PUT_timeline_def new_events_def)
  next
    case (Some payload)
    with \<open>request_json = Some inner\<close> have rj: "request_json = Some (Some payload)"
      by simp
    consider
        (pool) "fails PoolGetConnection"
      | (select) "\<not> fails PoolGetConnection" "fails MainSelect"
      | (absent) "\<not> fails PoolGetConnection" "\<not> fails MainSelect" "main_cluster s key = None"
      | (update) timeline where "\<not> fails PoolGetConnection" "\<not> fails MainSelect"
          "main_cluster s key = Some timeline" "fails MainUpdate"
      | (written) timeline where "\<not> fails PoolGetConnection" "\<not> fails MainSelect"
          "main_cluster s key = Some timeline" "\<not> fails MainUpdate"
      by (cases "main_cluster s key") auto
    then show ?thesis
    proof cases
      case pool
      with rj show ?thesis
        by (simp add: PUT_timeline_def server_error_def Let_def new_events_def)
    next
      case select
      with rj show ?thesis
        by (simp add: PUT_timeline_def server_error_def Let_def new_events_def)
    next
      case absent
      with rj show ?thesis
        by (simp add: PUT_timeline_def server_error_def Let_def new_events_def)
    next
      case update
      with rj show ?thesis
        by (simp add: PUT_timeline_def server_error_def Let_def new_events_def)
    next
      case written
      have "http_status (fst (PUT_timeline fails key request_json s)) = 200"
        by (simp add: PUT_timeline_written [OF rj written])
      with PUT_timeline_written_events [OF rj written] rj written show ?thesis
        by simp
    qed
  qed
qed

lemma POST_timelines_run:
  assumes provisioned: "\<And>b. request_json = Some b \<Longrightarrow> provisioned =
      (if createBranch b then createTidbBranch env md5 fetch inputs else (Null, Null))"
  shows "(http_status (fst (POST_timelines fails env md5 fetch inputs request_json s)),
    new_events s (snd (POST_timelines fails env md5 fetch inputs request_json s))) =
     (case request_json of
        None \<Rightarrow> (500, [])
      | Some b \<Rightarrow>
          if \<not> (truthy_string (sessionId b) \<and> truthy_string (timelineName b) \<and>
                  treeData b \<noteq> None)
          then (400, [])
          else if fails PoolGetConnection then (500, [(PoolGetConnection, False)])
          else if fails MainInsert \<or> fst provisioned = Undefined \<or>
                  snd provisioned = Undefined \<or> main_cluster s (timelineId inputs) \<noteq> None
          then (500, [(PoolGetConnection, True), (MainInsert, False)])
          else (200,
                [(PoolGetConnection, True), (MainInsert, True)] @
                (if \<not> truthy (snd provisioned) then []
                 else if fails (BranchConnect (js_string (snd provisioned)))
                 then [(BranchConnect (js_string (snd provisioned)), False)]
                 else [(BranchConnect (js_string (snd provisioned)), True),
                       (BranchUpsert (js_string (snd provisioned)),
                        \<not> fails (BranchUpsert (js_string (snd provisioned))))])))"
proof (cases request_json)
  case None
  then show ?thesis
    by (simp add: POST_timelines_def server_error_def new_events_def)
next
  case (Some b)
  note provisioned_def = provisioned [OF Some]
  consider
      (rejected) "\<not> (truthy_string (sessionId b) \<and> truthy_string (timelineName b) \<and>
                      treeData b \<noteq> None)"
    | (pool) "truthy_string (sessionId b)" "truthy_string (timelineName b)"
        "treeData b \<noteq> None" "fails PoolGetConnection"
    | (failed) "truthy_string (sessionId b)" "truthy_string (timelineName b)"
        "treeData b \<noteq> None" "\<not> fails PoolGetConnection"
        "fails MainInsert \<or> fst provisioned = Undefined \<or> snd provisioned = Undefined \<or>
         main_cluster s (timelineId inputs) \<noteq> None"
    | (inserted) "truthy_string (sessionId b)" "truthy_string (timelineName b)"
        "treeData b \<noteq> None" "\<not> fails PoolGetConnection"
        "\<not> fails MainInsert" "fst provisioned \<noteq> Undefined" "snd provisioned \<noteq> Undefined"
        "main_cluster s (timelineId inputs) = None"
    by blast
  then show ?thesis
  proof cases
    case rejected
    with Some show ?thesis
      by (simp add: POST_timelines_def new_events_def)
  next
    case pool
    from POST_timelines_pool_down [where fails = fails, OF Some pool] Some pool show ?thesis
      by (simp add: server_error_def new_events_def)
  next
    case failed
    from POST_timelines_insert_failed
      [where fails = fails, OF Some failed(1-4) provisioned_def failed(5)]
      Some failed
    show ?thesis
      by (simp add: server_error_def new_events_def)
  next
    case inserted
    from POST_timelines_inserted
      [where fails = fails, OF Some inserted(1-4) provisioned_def inserted(5-8) refl]
      Some inserted
    show ?thesis
      by (simp add: copy_to_branch_cases new_events_def)
  qed
qed

lemma POST_timelines_run_body:
  assumes "provisioned =
      (if createBranch b then createTidbBranch env md5 fetch inputs else (Null, Null))"
  shows "(http_status (fst (POST_timelines fails env md5 fetch inputs (Some b) s)),
    new_events s (snd (POST_timelines fails env md5 fetch inputs (Some b) s))) =
     (if \<not> (truthy_string (sessionId b) \<and> truthy_string (timelineName b) \<and>
             treeData b \<noteq> None)
      then (400, [])
      else if fails PoolGetConnection then (500, [(PoolGetConnection, False)])
      else if fails MainInsert \<or> fst provisioned = Undefined \<or>
              snd provisioned = Undefined \<or> main_cluster s (timelineId inputs) \<noteq> None
      then (500, [(PoolGetConnection, True), (MainInsert, False)])
      else (200,
            [(PoolGetConnection, True), (MainInsert, True)] @
            (if \<not> truthy (snd provisioned) then []
             else if fails (BranchConnect (js_string (snd provisioned)))
             then [(BranchConnect (js_string (snd provisioned)), False)]
             else [(BranchConnect (js_string (snd provisioned)), True),
                   (BranchUpsert (js_string (snd provisioned)),
                    \<not> fails (BranchUpsert (js_string (snd provisioned))))])))"
proof -
  have "request_json = Some b' \<Longrightarrow> provisioned =
      (if createBranch b' then createTidbBranch env md5 fetch inputs else (Null, Null))"
    if "request_json = Some b" for request_json b'
    using that assms by simp
  from POST_timelines_run [where request_json = "Some b" and fails = fails, OF this]
  show ?thesis
    by simp
qed

text \<open>What a successful branch write of an update and of a creation does to the tables.\<close>

lemma PUT_timeline_branch_updated:
  assumes run: "PUT_timeline fails key (Some (Some payload)) s = (response, s')"
    and ev: "(BranchUpdate host, True) \<in> set (new_events s s')"
  shows "branches s' = (branches s)(host := sql_update_tree_data (branches s host) key payload)"
proof -
  from run have s': "s' = snd (PUT_timeline fails key (Some (Some payload)) s)"
    by simp
  have events: "new_events s s' =
      snd (http_status (fst (PUT_timeline fails key (Some (Some payload)) s)),
           new_events s (snd (PUT_timeline fails key (Some (Some payload)) s)))"
    by (simp add: s')
  from ev have reached: "\<not> fails PoolGetConnection \<and> \<not> fails MainSelect \<and>
      main_cluster s key \<noteq> None \<and> \<not> fails MainUpdate"
    unfolding events PUT_timeline_run
    by (auto split: if_splits option.splits)
  then obtain timeline where row: "main_cluster s key = Some timeline"
    by blast
  from ev reached row have host: "truthy_string (branch_host timeline)"
      "host = the (branch_host timeline)"
      "\<not> fails (BranchConnect host)" "\<not> fails (BranchUpdate host)"
    unfolding events PUT_timeline_run
    by (auto split: if_splits)
  from reached row have "s' = snd (write_branch fails key (branch_host timeline) payload
      (s\<lparr>trace := trace s @ [(PoolGetConnection, True), (MainSelect, True), (MainUpdate, True)],
         main_cluster := (main_cluster s)(key \<mapsto> timeline\<lparr>tree_data := payload\<rparr>)\<rparr>))"
    unfolding s' by (simp add: PUT_timeline_written [OF refl])
  with host show ?thesis
    by (simp add: write_branch_cases)
qed

lemma POST_timelines_branch_upserted:
  assumes run: "POST_timelines fails env md5 fetch inputs (Some b) s = (response, s')"
    and ev: "(BranchUpsert host, True) \<in> set (new_events s s')"
  shows "\<exists>row. main_cluster s' (timelineId inputs) = Some row \<and>
           tree_data row = the (treeData b) \<and>
           branches s' =
             (branches s)
               (host := sql_insert_on_duplicate_key_update_tree_data (branches s host)
                          (timelineId inputs) (row\<lparr>created_at := now_branch inputs\<rparr>))"
proof -
  define provisioned where "provisioned =
    (if createBranch b then createTidbBranch env md5 fetch inputs else (Null, Null))"
  define row where "row =
    \<lparr>session_id = the (sessionId b), name = the (timelineName b),
     parent_timeline_id = or_null (parentTimelineId b),
     branch_id = sql_value (fst provisioned), branch_host = sql_value (snd provisioned),
     tree_data = the (treeData b), branched_from_node = or_null (branchedFromNode b),
     created_at = now_main inputs\<rparr>"
  from run have s': "s' = snd (POST_timelines fails env md5 fetch inputs (Some b) s)"
    by simp
  have events: "new_events s s' =
      snd (http_status (fst (POST_timelines fails env md5 fetch inputs (Some b) s)),
           new_events s (snd (POST_timelines fails env md5 fetch inputs (Some b) s)))"
    by (simp add: s')
  from ev have reached: "truthy_string (sessionId b)" "truthy_string (timelineName b)"
      "treeData b \<noteq> None" "\<not> fails PoolGetConnection" "\<not> fails MainInsert"
      "fst provisioned \<noteq> Undefined" "snd provisioned \<noteq> Undefined"
      "main_cluster s (timelineId inputs) = None"
    unfolding events
      POST_timelines_run_body [where provisioned = provisioned, OF provisioned_def]
    by (auto split: if_splits)
  from ev reached have host: "truthy (snd provisioned)" "host = js_string (snd provisioned)"
      "\<not> fails (BranchConnect host)" "\<not> fails (BranchUpsert host)"
    unfolding events
      POST_timelines_run_body [where provisioned = provisioned, OF provisioned_def]
    by (auto split: if_splits)
  have "s' = copy_to_branch fails (timelineId inputs) (snd provisioned)
      (row\<lparr>created_at := now_branch inputs\<rparr>)
      (s\<lparr>trace := trace s @ [(PoolGetConnection, True), (MainInsert, True)],
         main_cluster := (main_cluster s)(timelineId inputs \<mapsto> row)\<rparr>)"
    unfolding s'
    by (simp add: POST_timelines_inserted
        [where fails = fails, OF refl reached(1-4) provisioned_def reached(5-8) row_def])
  with host have "main_cluster s' (timelineId inputs) = Some row"
    and "branches s' =
      (branches s)
        (host := sql_insert_on_duplicate_key_update_tree_data (branches s host)
                   (timelineId inputs) (row\<lparr>created_at := now_branch inputs\<rparr>))"
    by (simp_all add: copy_to_branch_cases)
  moreover have "tree_data row = the (treeData b)"
    by (simp add: row_def)
  ultimately show ?thesis
    by blast
qed

text \<open>
  C4 (as amended). On a creation, a branch write that succeeds is an upsert: where the
  branch has no row with the key, the row is inserted (the row written to the main
  cluster, with the branch's own time stamp), and where it has one, only the payload
  of that row is overwritten. On an update, a branch write that succeeds is the
  \<^verbatim>\<open>UPDATE\<close> that the main cluster gets: where the branch has a row with the key, only
  its payload is overwritten, and where it has none, the branch is left as it was and
  nothing is inserted. No other row and no other branch changes.
\<close>

theorem branch_write_upserts_on_create_and_updates_on_update:
  "(POST_timelines fails env md5 fetch inputs (Some b) s = (created, s1) \<and>
    (BranchUpsert host, True) \<in> set (new_events s s1) \<longrightarrow>
      (\<exists>row. main_cluster s1 (timelineId inputs) = Some row \<and>
         tree_data row = the (treeData b) \<and>
         branches s1 =
           (branches s)
             (host :=
                (case branches s host (timelineId inputs) of
                   Some existing \<Rightarrow>
                     (branches s host)
                       (timelineId inputs \<mapsto> existing\<lparr>tree_data := the (treeData b)\<rparr>)
                 | None \<Rightarrow>
                     (branches s host)
                       (timelineId inputs \<mapsto> row\<lparr>created_at := now_branch inputs\<rparr>))))) \<and>
   (PUT_timeline fails key (Some (Some payload)) s = (updated, s2) \<and>
    (BranchUpdate host, True) \<in> set (new_events s s2) \<longrightarrow>
      branches s2 =
        (branches s)
          (host :=
             (case branches s host key of
                Some existing \<Rightarrow> (branches s host)(key \<mapsto> existing\<lparr>tree_data := payload\<rparr>)
              | None \<Rightarrow> branches s host)))"
proof (intro conjI impI)
  assume "POST_timelines fails env md5 fetch inputs (Some b) s = (created, s1) \<and>
    (BranchUpsert host, True) \<in> set (new_events s s1)"
  then obtain row where "main_cluster s1 (timelineId inputs) = Some row"
    and "tree_data row = the (treeData b)"
    and "branches s1 =
      (branches s)
        (host := sql_insert_on_duplicate_key_update_tree_data (branches s host)
                   (timelineId inputs) (row\<lparr>created_at := now_branch inputs\<rparr>))"
    using POST_timelines_branch_upserted [where fails = fails] by blast
  then show "\<exists>row. main_cluster s1 (timelineId inputs) = Some row \<and>
      tree_data row = the (treeData b) \<and>
      branches s1 =
        (branches s)
          (host :=
             (case branches s host (timelineId inputs) of
                Some existing \<Rightarrow>
                  (branches s host)
                    (timelineId inputs \<mapsto> existing\<lparr>tree_data := the (treeData b)\<rparr>)
              | None \<Rightarrow>
                  (branches s host)
                    (timelineId inputs \<mapsto> row\<lparr>created_at := now_branch inputs\<rparr>)))"
    by (auto simp: sql_insert_on_duplicate_key_update_tree_data_def split: option.split)
next
  assume "PUT_timeline fails key (Some (Some payload)) s = (updated, s2) \<and>
    (BranchUpdate host, True) \<in> set (new_events s s2)"
  then have "branches s2 =
      (branches s)(host := sql_update_tree_data (branches s host) key payload)"
    using PUT_timeline_branch_updated [where fails = fails] by blast
  then show "branches s2 =
      (branches s)
        (host :=
           (case branches s host key of
              Some existing \<Rightarrow> (branches s host)(key \<mapsto> existing\<lparr>tree_data := payload\<rparr>)
            | None \<Rightarrow> branches s host))"
    by (simp add: sql_update_tree_data_def)
qed

lemma example_provisioning:
  "createTidbBranch example_env toy_hash open_server example_inputs =
     (Str ''bran-2'', Str ''branch-2.tidb.example'')"
  by (simp add: createTidbBranch_def tidbCloudFetch_def example_env_def open_server_def
      truthy_string_def truthy_def response_ok_def Let_def)

lemma example_creation:
  assumes "main_cluster s ''0123456789abcdef'' = None"
  shows "snd (POST_timelines no_faults example_env toy_hash open_server example_inputs
                (Some example_create) s) =
     s\<lparr>trace := trace s @ [(PoolGetConnection, True), (MainInsert, True),
                            (BranchConnect ''branch-2.tidb.example'', True),
                            (BranchUpsert ''branch-2.tidb.example'', True)],
       main_cluster := (main_cluster s)(''0123456789abcdef'' \<mapsto> created_row),
       branches := (branches s)
         (''branch-2.tidb.example'' :=
            sql_insert_on_duplicate_key_update_tree_data
              (branches s ''branch-2.tidb.example'') ''0123456789abcdef''
              (created_row\<lparr>created_at := 1700000101\<rparr>))\<rparr>"
proof -
  have provisioned: "(Str ''bran-2'', Str ''branch-2.tidb.example'') =
      (if createBranch example_create
       then createTidbBranch example_env toy_hash open_server example_inputs
       else (Null, Null))"
    by (simp add: example_provisioning example_create_def)
  have row: "created_row =
      \<lparr>session_id = the (sessionId example_create),
       name = the (timelineName example_create),
       parent_timeline_id = or_null (parentTimelineId example_create),
       branch_id = sql_value (fst (Str ''bran-2'', Str ''branch-2.tidb.example'')),
       branch_host = sql_value (snd (Str ''bran-2'', Str ''branch-2.tidb.example'')),
       tree_data = the (treeData example_create),
       branched_from_node = or_null (branchedFromNode example_create),
       created_at = now_main example_inputs\<rparr>"
    by (simp add: created_row_def example_create_def example_inputs_def or_null_def
        sql_value_def truthy_string_def)
  have "POST_timelines no_faults example_env toy_hash open_server example_inputs
      (Some example_create) s =
    (\<lparr>http_status = 200,
      http_body = Created (timelineId example_inputs) (the (timelineName example_create))
        (fst (Str ''bran-2'', Str ''branch-2.tidb.example''))
        (snd (Str ''bran-2'', Str ''branch-2.tidb.example''))
        (truthy (fst (Str ''bran-2'', Str ''branch-2.tidb.example'')))\<rparr>,
     copy_to_branch no_faults (timelineId example_inputs)
       (snd (Str ''bran-2'', Str ''branch-2.tidb.example''))
       (created_row\<lparr>created_at := now_branch example_inputs\<rparr>)
       (s\<lparr>trace := trace s @ [(PoolGetConnection, True), (MainInsert, True)],
          main_cluster := (main_cluster s)(timelineId example_inputs \<mapsto> created_row)\<rparr>))"
    by (rule POST_timelines_inserted [OF refl _ _ _ _ provisioned _ _ _ _ row])
       (simp_all add: example_create_def example_inputs_def truthy_string_def assms)
  then show ?thesis
    by (simp add: copy_to_branch_cases truthy_def js_string_def example_inputs_def)
qed

theorem branch_write_upserts_on_create_and_updates_on_update_witness:
  "main_cluster
     (snd (POST_timelines no_faults example_env toy_hash open_server example_inputs
             (Some example_create) plain_stores)) ''0123456789abcdef'' = Some created_row \<and>
   branches
     (snd (POST_timelines no_faults example_env toy_hash open_server example_inputs
             (Some example_create) plain_stores)) ''branch-2.tidb.example'' =
     [''0123456789abcdef'' \<mapsto> created_row\<lparr>created_at := 1700000101\<rparr>] \<and>
   branches
     (snd (POST_timelines no_faults example_env toy_hash open_server example_inputs
             (Some example_create) stale_branch_stores)) ''branch-2.tidb.example'' =
     [''0123456789abcdef'' \<mapsto> plain_row\<lparr>tree_data := duplicate_id_tree\<rparr>] \<and>
   branches
     (snd (PUT_timeline no_faults ''t1'' (Some (Some (leaf ''root'' ''Rewritten'' Now)))
             branched_stores)) ''branch-1.tidb.example'' =
     [''t1'' \<mapsto> example_row\<lparr>tree_data := leaf ''root'' ''Rewritten'' Now\<rparr>]"
proof -
  let ?post = "\<lambda>s. POST_timelines no_faults example_env toy_hash open_server example_inputs
      (Some example_create) s"
  let ?put = "PUT_timeline no_faults ''t1'' (Some (Some (leaf ''root'' ''Rewritten'' Now)))
      branched_stores"
  have absent: "main_cluster plain_stores ''0123456789abcdef'' = None"
      "main_cluster stale_branch_stores ''0123456789abcdef'' = None"
    by (simp_all add: plain_stores_def stale_branch_stores_def)
  have facts:
      "timelineId example_inputs = ''0123456789abcdef''"
      "now_branch example_inputs = 1700000101"
      "the (treeData example_create) = duplicate_id_tree"
      "branches plain_stores = (\<lambda>host. Map.empty)"
      "branches stale_branch_stores = (\<lambda>host. [''0123456789abcdef'' \<mapsto> plain_row])"
      "branches branched_stores ''branch-1.tidb.example'' =
         [''t1'' \<mapsto> example_row\<lparr>tree_data := duplicate_id_tree\<rparr>]"
    by (simp_all add: example_inputs_def example_create_def plain_stores_def
        stale_branch_stores_def branched_stores_def)
  have upsert: "(BranchUpsert ''branch-2.tidb.example'', True) \<in>
      set (new_events s (snd (?post s)))"
    if "main_cluster s ''0123456789abcdef'' = None" for s
    by (simp add: example_creation [OF that] new_events_def)
  have update: "(BranchUpdate ''branch-1.tidb.example'', True) \<in>
      set (new_events branched_stores (snd ?put))"
    by (simp add: PUT_timeline_written_events [where timeline = example_row]
        truthy_string_def)
  note claim = branch_write_upserts_on_create_and_updates_on_update
    [where fails = no_faults and env = example_env and ?md5.0 = toy_hash
      and fetch = open_server and inputs = example_inputs and b = example_create
      and host = "''branch-2.tidb.example''"]
  from claim [where s = plain_stores, THEN conjunct1, rule_format,
      OF conjI [OF prod.collapse [symmetric] upsert [OF absent(1)]]]
  obtain row where "main_cluster (snd (?post plain_stores)) (timelineId example_inputs) = Some row"
    and "branches (snd (?post plain_stores)) =
      (branches plain_stores)
        (''branch-2.tidb.example'' :=
           (case branches plain_stores ''branch-2.tidb.example'' (timelineId example_inputs) of
              Some existing \<Rightarrow>
                (branches plain_stores ''branch-2.tidb.example'')
                  (timelineId example_inputs \<mapsto>
                     existing\<lparr>tree_data := the (treeData example_create)\<rparr>)
            | None \<Rightarrow>
                (branches plain_stores ''branch-2.tidb.example'')
                  (timelineId example_inputs \<mapsto>
                     row\<lparr>created_at := now_branch example_inputs\<rparr>)))"
    by blast
  moreover have "main_cluster (snd (?post plain_stores)) ''0123456789abcdef'' =
      Some created_row"
    by (simp add: example_creation [OF absent(1)])
  ultimately have inserted:
      "main_cluster (snd (?post plain_stores)) ''0123456789abcdef'' = Some created_row"
      "branches (snd (?post plain_stores)) ''branch-2.tidb.example'' =
        [''0123456789abcdef'' \<mapsto> created_row\<lparr>created_at := 1700000101\<rparr>]"
    by (simp_all add: facts)
  from claim [where s = stale_branch_stores, THEN conjunct1, rule_format,
      OF conjI [OF prod.collapse [symmetric] upsert [OF absent(2)]]]
  obtain row where
    "branches (snd (?post stale_branch_stores)) =
      (branches stale_branch_stores)
        (''branch-2.tidb.example'' :=
           (case branches stale_branch_stores ''branch-2.tidb.example''
                   (timelineId example_inputs) of
              Some existing \<Rightarrow>
                (branches stale_branch_stores ''branch-2.tidb.example'')
                  (timelineId example_inputs \<mapsto>
                     existing\<lparr>tree_data := the (treeData example_create)\<rparr>)
            | None \<Rightarrow>
                (branches stale_branch_stores ''branch-2.tidb.example'')
                  (timelineId example_inputs \<mapsto>
                     row\<lparr>created_at := now_branch example_inputs\<rparr>)))"
    by blast
  then have overwritten:
    "branches (snd (?post stale_branch_stores)) ''branch-2.tidb.example'' =
       [''0123456789abcdef'' \<mapsto> plain_row\<lparr>tree_data := duplicate_id_tree\<rparr>]"
    by (simp add: facts)
  from branch_write_upserts_on_create_and_updates_on_update
      [where fails = no_faults and s = branched_stores and key = "''t1''"
      and payload = "leaf ''root'' ''Rewritten'' Now"
      and host = "''branch-1.tidb.example''", THEN conjunct2, rule_format,
      OF conjI [OF prod.collapse [symmetric] update]]
  have updated: "branches (snd ?put) ''branch-1.tidb.example'' =
      [''t1'' \<mapsto> example_row\<lparr>tree_data := leaf ''root'' ''Rewritten'' Now\<rparr>]"
    by (simp add: facts)
  from inserted overwritten updated show ?thesis
    by simp
qed

text \<open>
  C4 as stated fails for updates. In \<open>empty_branch_stores\<close> the record names a branch
  host and the branch holds no row under its key. The update succeeds on the branch (the
  answer is \<^verbatim>\<open>both\<close>), and the branch still holds no row: an upsert would have inserted
  one.
\<close>

theorem update_on_branch_inserts_no_row:
  "fst (PUT_timeline no_faults ''t1'' (Some (Some duplicate_id_tree)) empty_branch_stores) =
     \<lparr>http_status = 200, http_body = WrittenTo ''both''\<rparr> \<and>
   new_events empty_branch_stores
     (snd (PUT_timeline no_faults ''t1'' (Some (Some duplicate_id_tree)) empty_branch_stores)) =
     [(PoolGetConnection, True), (MainSelect, True), (MainUpdate, True),
      (BranchConnect ''branch-1.tidb.example'', True),
      (BranchUpdate ''branch-1.tidb.example'', True)] \<and>
   branches empty_branch_stores ''branch-1.tidb.example'' ''t1'' = None \<and>
   branches
     (snd (PUT_timeline no_faults ''t1'' (Some (Some duplicate_id_tree)) empty_branch_stores))
     ''branch-1.tidb.example'' ''t1'' = None"
  by (simp add: PUT_timeline_written [where timeline = example_row]
      write_branch_cases truthy_string_def sql_update_tree_data_def new_events_def)

text \<open>
  C5. In every run of an update and of a creation, each call on a branch comes after
  the write to the main cluster, and after that write has succeeded: the calls are made
  one after the other, and the log of a run never shows a branch call before a
  successful main write. If the write to the main cluster fails, the answer is 500 and
  the run makes no branch call.
\<close>

theorem branch_write_follows_primary_write:
  "branch_after_main_write False
     (new_events s (snd (PUT_timeline fails key update_json s))) \<and>
   branch_after_main_write False
     (new_events s (snd (POST_timelines fails env md5 fetch inputs create_json s))) \<and>
   ((MainUpdate, False) \<in> set (new_events s (snd (PUT_timeline fails key update_json s))) \<longrightarrow>
      http_status (fst (PUT_timeline fails key update_json s)) = 500 \<and>
      branch_calls (new_events s (snd (PUT_timeline fails key update_json s))) = []) \<and>
   ((MainInsert, False)
      \<in> set (new_events s (snd (POST_timelines fails env md5 fetch inputs create_json s))) \<longrightarrow>
      http_status (fst (POST_timelines fails env md5 fetch inputs create_json s)) = 500 \<and>
      branch_calls
        (new_events s (snd (POST_timelines fails env md5 fetch inputs create_json s))) = [])"
proof -
  let ?put = "PUT_timeline fails key update_json s"
  let ?post = "POST_timelines fails env md5 fetch inputs create_json s"
  define provisioned where "provisioned =
    (case create_json of
       Some b \<Rightarrow> if createBranch b then createTidbBranch env md5 fetch inputs else (Null, Null)
     | None \<Rightarrow> (Null, Null))"
  have put_order: "branch_after_main_write False (new_events s (snd ?put))"
    using PUT_timeline_run [of fails key update_json s]
    by (auto split: option.splits if_splits)
  have put_failed: "http_status (fst ?put) = 500 \<and> branch_calls (new_events s (snd ?put)) = []"
    if "(MainUpdate, False) \<in> set (new_events s (snd ?put))"
    using that PUT_timeline_run [of fails key update_json s]
    by (auto simp: branch_calls_def split: option.splits if_splits)
  have run: "(http_status (fst ?post), new_events s (snd ?post)) =
      (case create_json of
         None \<Rightarrow> (500, [])
       | Some b \<Rightarrow>
           if \<not> (truthy_string (sessionId b) \<and> truthy_string (timelineName b) \<and>
                   treeData b \<noteq> None)
           then (400, [])
           else if fails PoolGetConnection then (500, [(PoolGetConnection, False)])
           else if fails MainInsert \<or> fst provisioned = Undefined \<or>
                   snd provisioned = Undefined \<or> main_cluster s (timelineId inputs) \<noteq> None
           then (500, [(PoolGetConnection, True), (MainInsert, False)])
           else (200,
                 [(PoolGetConnection, True), (MainInsert, True)] @
                 (if \<not> truthy (snd provisioned) then []
                  else if fails (BranchConnect (js_string (snd provisioned)))
                  then [(BranchConnect (js_string (snd provisioned)), False)]
                  else [(BranchConnect (js_string (snd provisioned)), True),
                        (BranchUpsert (js_string (snd provisioned)),
                         \<not> fails (BranchUpsert (js_string (snd provisioned))))])))"
    by (rule POST_timelines_run) (simp add: provisioned_def)
  have post_order: "branch_after_main_write False (new_events s (snd ?post))"
    using run by (auto split: option.splits if_splits)
  have post_failed:
    "http_status (fst ?post) = 500 \<and> branch_calls (new_events s (snd ?post)) = []"
    if "(MainInsert, False) \<in> set (new_events s (snd ?post))"
    using that run by (auto simp: branch_calls_def split: option.splits if_splits)
  from put_order post_order put_failed post_failed show ?thesis
    by blast
qed

theorem branch_write_follows_primary_write_witness:
  "(MainUpdate, False)
     \<in> set (new_events branched_stores
              (snd (PUT_timeline main_update_down ''t1'' (Some (Some duplicate_id_tree))
                      branched_stores))) \<and>
   http_status
     (fst (PUT_timeline main_update_down ''t1'' (Some (Some duplicate_id_tree))
             branched_stores)) = 500 \<and>
   branch_calls
     (new_events branched_stores
        (snd (PUT_timeline main_update_down ''t1'' (Some (Some duplicate_id_tree))
                branched_stores))) = [] \<and>
   (MainInsert, False)
     \<in> set (new_events branched_stores
              (snd (POST_timelines no_faults example_env toy_hash open_server
                      (example_inputs\<lparr>timelineId := ''t1''\<rparr>) (Some example_create)
                      branched_stores))) \<and>
   http_status
     (fst (POST_timelines no_faults example_env toy_hash open_server
             (example_inputs\<lparr>timelineId := ''t1''\<rparr>) (Some example_create)
             branched_stores)) = 500 \<and>
   branch_calls
     (new_events branched_stores
        (snd (POST_timelines no_faults example_env toy_hash open_server
                (example_inputs\<lparr>timelineId := ''t1''\<rparr>) (Some example_create)
                branched_stores))) = []"
proof -
  have update_failed: "(MainUpdate, False)
      \<in> set (new_events branched_stores
               (snd (PUT_timeline main_update_down ''t1'' (Some (Some duplicate_id_tree))
                       branched_stores)))"
    using PUT_timeline_run [of main_update_down "''t1''" "Some (Some duplicate_id_tree)"
        branched_stores]
    by simp
  have insert_failed: "(MainInsert, False)
      \<in> set (new_events branched_stores
               (snd (POST_timelines no_faults example_env toy_hash open_server
                       (example_inputs\<lparr>timelineId := ''t1''\<rparr>) (Some example_create)
                       branched_stores)))"
    using POST_timelines_run_body [where fails = no_faults and s = branched_stores
        and b = example_create and inputs = "example_inputs\<lparr>timelineId := ''t1''\<rparr>",
        OF refl]
    by (simp add: example_create_def truthy_string_def)
  note claim = branch_write_follows_primary_write
    [where s = branched_stores and key = "''t1''" and fails = main_update_down
      and update_json = "Some (Some duplicate_id_tree)"]
  note claim' = branch_write_follows_primary_write
    [where s = branched_stores and fails = no_faults and env = example_env
      and ?md5.0 = toy_hash and fetch = open_server
      and inputs = "example_inputs\<lparr>timelineId := ''t1''\<rparr>"
      and create_json = "Some example_create"]
  from update_failed insert_failed
    claim [THEN conjunct2, THEN conjunct2, THEN conjunct1, rule_format, OF update_failed]
    claim' [THEN conjunct2, THEN conjunct2, THEN conjunct2, rule_format, OF insert_failed]
  show ?thesis
    by blast
qed

end
